theory Spec2Isabelle
  imports Main "HOL-Library.AList"
begin

section \<open>Data model (models.py, exceptions.py)\<close>

text \<open>
  Python values that travel through the opaque payload dictionaries (\<open>Dict[str, Any]\<close>).
  A dictionary is an association list in insertion order; \<open>map_of\<close> is the lookup.
\<close>

datatype pyval =
    PyNone
  | PyBool bool
  | PyInt int
  | PyStr string
  | PyList "pyval list"
  | PyDict "(string \<times> pyval) list"

type_synonym pydict = "(string \<times> pyval) list"

datatype StepType =
  RUNWAY_VIDEO | FFMPEG_PROCESS | WHISPER_TRANSCRIBE | GPT4_ANALYSIS | CUSTOM_PROCESS

datatype StepStatus =
  StepPENDING | StepPROCESSING | StepCOMPLETED | StepFAILED | StepSKIPPED

datatype PipelineStatus =
  PENDING | PROCESSING | COMPLETED | FAILED | CANCELLED

text \<open>
  The exceptions of exceptions.py, together with the Python exceptions the code meets.
  \<open>CancelledError\<close> is the only one here that is not a subclass of \<open>Exception\<close>: it
  passes every \<open>except Exception\<close> clause. \<open>OtherException\<close> is any other subclass of
  \<open>Exception\<close> raised by a collaborator, carried by its \<open>str()\<close>. \<open>KeyError\<close> carries
  the \<open>str()\<close> of the exception as well.
\<close>

datatype exn =
    PipelineException string
  | ServiceException string
  | ValidationException string
  | HTTPException nat string
  | KeyError string
  | PydanticValidationError string
  | OtherException string
  | CancelledError

fun is_Exception :: "exn \<Rightarrow> bool" where
  "is_Exception CancelledError = False"
| "is_Exception _ = True"

fun exn_str :: "exn \<Rightarrow> string" where
  "exn_str (PipelineException m) = m"
| "exn_str (ServiceException m) = m"
| "exn_str (ValidationException m) = m"
| "exn_str (HTTPException c m) = m"
| "exn_str (KeyError m) = m"
| "exn_str (PydanticValidationError m) = m"
| "exn_str (OtherException m) = m"
| "exn_str CancelledError = []"

text \<open>
  \<open>PipelineStep\<close> and \<open>Pipeline\<close>. The fields \<open>status\<close> and \<open>completedAt\<close> exist in both
  classes; the step's are \<open>step_status\<close> and \<open>step_completedAt\<close> here, and its
  \<open>input\<close> and \<open>output\<close> are \<open>step_input\<close> and \<open>step_output\<close>. Timestamps are
  readings of a clock, as natural numbers.
\<close>

record PipelineStep =
  stepId :: string
  stepType :: StepType
  step_status :: StepStatus
  order :: int
  step_input :: pydict
  step_output :: "pydict option"
  error :: "string option"
  startedAt :: "nat option"
  step_completedAt :: "nat option"
  progress :: int

record Pipeline =
  pipelineId :: string
  videoId :: string
  videoUrl :: string
  prompt :: string
  status :: PipelineStatus
  steps :: "PipelineStep list"
  createdAt :: nat
  updatedAt :: "nat option"
  completedAt :: "nat option"
  totalSteps :: int
  completedSteps :: int

record PipelineConfig =
  enableRunwayVideo :: bool
  enableFfmpeg :: bool
  enableWhisper :: bool
  enableGpt4 :: bool
  customSteps :: "pydict list"

definition default_PipelineConfig :: PipelineConfig where
  "default_PipelineConfig =
     \<lparr>enableRunwayVideo = True, enableFfmpeg = False, enableWhisper = False,
      enableGpt4 = False, customSteps = []\<rparr>"

section \<open>The collaborators and the manager's state\<close>

text \<open>
  What the pipeline manager calls and does not own is a parameter of the model:
  \<^item> \<open>runway_process_video url prompt pipeline_id\<close>: the awaited call of
    \<open>runway_service.process_video\<close>; it returns \<open>None\<close> or a dictionary, or the await
    ends with an exception (\<open>CancelledError\<close> when the task is cancelled meanwhile);
  \<^item> \<open>asyncio_sleep pipeline_id step_id\<close>: the awaited \<open>asyncio.sleep(1)\<close> of a custom
    step, which returns, or ends with an exception in the same way;
  \<^item> \<open>uuid4 n\<close>: the string of the n-th identifier drawn from \<open>uuid.uuid4()\<close>;
  \<^item> \<open>http_url_error\<close>: pydantic's check of a string for a field of type \<open>HttpUrl\<close>
    (the construction of a \<open>Pipeline\<close> validates \<open>videoUrl\<close>): \<open>None\<close> when the string
    is accepted, else the text of the validation error;
  \<^item> \<open>py_str_other\<close>: Python's \<open>str()\<close> of a value that is not a string;
  \<^item> \<open>py_repr\<close>: Python's \<open>repr()\<close> of a string (the text of a \<open>KeyError\<close>);
  \<^item> \<open>uuid_parses\<close>: whether \<open>uuid.UUID\<close> accepts a string;
  \<^item> \<open>parse_PipelineConfig\<close>: pydantic's \<open>PipelineConfig(**d)\<close>, a configuration or the
    exception raised;
  \<^item> \<open>py_format_status\<close>: a member of \<open>PipelineStatus\<close> as an f-string prints it.
\<close>

record env =
  runway_process_video :: "string \<Rightarrow> string \<Rightarrow> string \<Rightarrow> exn + pydict option"
  asyncio_sleep :: "string \<Rightarrow> string \<Rightarrow> exn option"
  uuid4 :: "nat \<Rightarrow> string"
  http_url_error :: "string \<Rightarrow> string option"
  py_str_other :: "pyval \<Rightarrow> string"
  py_repr :: "string \<Rightarrow> string"
  uuid_parses :: "string \<Rightarrow> bool"
  parse_PipelineConfig :: "pydict \<Rightarrow> exn + PipelineConfig"
  py_format_status :: "PipelineStatus \<Rightarrow> string"

definition py_str :: "env \<Rightarrow> pyval \<Rightarrow> string" where
  "py_str e v = (case v of PyStr s \<Rightarrow> s | _ \<Rightarrow> py_str_other e v)"

text \<open>
  The state of a \<open>PipelineManager\<close>: the two dictionaries (in insertion order), and
  around them the event loop's tasks, the clock that \<open>datetime.now()\<close> reads and the
  number of identifiers drawn so far. A task handle is the task's number; \<open>tasks\<close> lists,
  for every task created, the pipeline id its \<open>_execute_pipeline\<close> coroutine was given,
  and \<open>cancel_requests\<close> the handles on which \<open>cancel()\<close> was called.
\<close>

record state =
  pipelines :: "(string \<times> Pipeline) list"
  running_pipelines :: "(string \<times> nat) list"
  tasks :: "string list"
  cancel_requests :: "nat list"
  clock :: nat
  uuid_count :: nat

definition init_state :: state where
  "init_state =
     \<lparr>pipelines = [], running_pipelines = [], tasks = [], cancel_requests = [],
      clock = 0, uuid_count = 0\<rparr>"

section \<open>PipelineManager.create_pipeline and _create_steps\<close>

text \<open>
  The methods whose names begin with an underscore in the source (\<open>_create_steps\<close>,
  \<open>_execute_step\<close>, \<open>_execute_pipeline\<close> and the step executors) have their names
  without it here. Calls of the logger are left out: they write to the console only.
\<close>

definition new_step :: "string \<Rightarrow> StepType \<Rightarrow> int \<Rightarrow> pydict \<Rightarrow> PipelineStep" where
  "new_step sid ty ord inp =
     \<lparr>stepId = sid, stepType = ty, step_status = StepPENDING, order = ord, step_input = inp,
      step_output = None, error = None, startedAt = None, step_completedAt = None,
      progress = 0\<rparr>"

text \<open>
  The loop over \<open>config.customSteps\<close>: \<open>n\<close> is the number of identifiers drawn so far and
  \<open>ord\<close> the running \<open>order\<close>.
\<close>

fun custom_steps :: "env \<Rightarrow> pydict list \<Rightarrow> nat \<Rightarrow> int \<Rightarrow> PipelineStep list" where
  "custom_steps e [] n ord = []"
| "custom_steps e (c # cs) n ord =
     new_step (uuid4 e n) CUSTOM_PROCESS ord c # custom_steps e cs (Suc n) (ord + 1)"

text \<open>
  One of the four flagged blocks of \<open>_create_steps\<close>: when the flag is set, a step of the
  given type is appended with the current \<open>order\<close>, drawing one identifier.
\<close>

definition flag_step ::
  "env \<Rightarrow> bool \<Rightarrow> StepType \<Rightarrow> PipelineStep list \<times> nat \<times> int \<Rightarrow> PipelineStep list \<times> nat \<times> int"
where
  "flag_step e flag ty acc =
     (case acc of (ss, n, ord) \<Rightarrow>
        if flag then (ss @ [new_step (uuid4 e n) ty ord []], Suc n, ord + 1)
        else (ss, n, ord))"

definition create_steps :: "env \<Rightarrow> PipelineConfig \<Rightarrow> nat \<Rightarrow> PipelineStep list \<times> nat" where
  "create_steps e config n0 =
     (case flag_step e (enableGpt4 config) GPT4_ANALYSIS
             (flag_step e (enableWhisper config) WHISPER_TRANSCRIBE
               (flag_step e (enableFfmpeg config) FFMPEG_PROCESS
                 (flag_step e (enableRunwayVideo config) RUNWAY_VIDEO ([], n0, 0))))
      of (ss, n, ord) \<Rightarrow>
        (ss @ custom_steps e (customSteps config) n ord,
         n + length (customSteps config)))"

text \<open>
  \<open>create_pipeline\<close> returns the pipeline and the new state, or the exception of the
  \<open>Pipeline\<close> constructor when \<open>video_url\<close> is no \<open>HttpUrl\<close>; the identifiers drawn
  before are then spent, and nothing is stored.
\<close>

definition create_pipeline ::
  "env \<Rightarrow> string \<Rightarrow> string \<Rightarrow> string \<Rightarrow> PipelineConfig option \<Rightarrow> state
     \<Rightarrow> (exn + Pipeline) \<times> state"
where
  "create_pipeline e video_id video_url prompt_text config st =
     (let config1 = (case config of None \<Rightarrow> default_PipelineConfig | Some c \<Rightarrow> c);
          config2 = config1\<lparr>enableFfmpeg := False, enableWhisper := False,
                            enableGpt4 := False\<rparr>;
          pipeline_id = uuid4 e (uuid_count st);
          (step_list, n) = create_steps e config2 (Suc (uuid_count st));
          st1 = st\<lparr>uuid_count := n, clock := Suc (clock st)\<rparr>
      in case http_url_error e video_url of
           Some m \<Rightarrow> (Inl (PydanticValidationError m), st1)
         | None \<Rightarrow>
             (let pipeline =
                   \<lparr>pipelineId = pipeline_id, videoId = video_id, videoUrl = video_url,
                    prompt = prompt_text, status = PENDING, steps = step_list,
                    createdAt = clock st, updatedAt = None, completedAt = None,
                    totalSteps = int (length step_list), completedSteps = 0\<rparr>
              in (Inr pipeline,
                  st1\<lparr>pipelines := AList.update pipeline_id pipeline (pipelines st1)\<rparr>)))"

section \<open>PipelineManager.start_pipeline, cancel_pipeline, delete_pipeline, get_pipeline\<close>

text \<open>
  An operation that can raise returns the exception, if any, beside the state it leaves.
\<close>

definition start_pipeline :: "string \<Rightarrow> state \<Rightarrow> exn option \<times> state" where
  "start_pipeline pipeline_id st =
     (case map_of (pipelines st) pipeline_id of
        None \<Rightarrow>
          (Some (PipelineException (''Pipeline '' @ pipeline_id @ '' not found'')), st)
      | Some pipeline \<Rightarrow>
          (None,
           st\<lparr>pipelines :=
                 AList.update pipeline_id
                   (pipeline\<lparr>status := PROCESSING, updatedAt := Some (clock st)\<rparr>)
                   (pipelines st),
               clock := Suc (clock st),
               tasks := tasks st @ [pipeline_id],
               running_pipelines :=
                 AList.update pipeline_id (length (tasks st)) (running_pipelines st)\<rparr>))"

text \<open>
  The block shared by \<open>cancel_pipeline\<close> and \<open>delete_pipeline\<close>: \<open>cancel()\<close> on the task
  registered for the id, and the removal of the registration.
\<close>

definition cancel_running_task :: "string \<Rightarrow> state \<Rightarrow> state" where
  "cancel_running_task pipeline_id st =
     (case map_of (running_pipelines st) pipeline_id of
        None \<Rightarrow> st
      | Some task \<Rightarrow>
          st\<lparr>cancel_requests := cancel_requests st @ [task],
              running_pipelines := AList.delete pipeline_id (running_pipelines st)\<rparr>)"

definition cancel_pipeline :: "string \<Rightarrow> state \<Rightarrow> bool \<times> state" where
  "cancel_pipeline pipeline_id st =
     (case map_of (pipelines st) pipeline_id of
        None \<Rightarrow> (False, st)
      | Some pipeline \<Rightarrow>
          (True,
           cancel_running_task pipeline_id
             (st\<lparr>pipelines :=
                    AList.update pipeline_id
                      (pipeline\<lparr>status := CANCELLED, updatedAt := Some (clock st)\<rparr>)
                      (pipelines st),
                  clock := Suc (clock st)\<rparr>)))"

definition delete_pipeline :: "string \<Rightarrow> state \<Rightarrow> bool \<times> state" where
  "delete_pipeline pipeline_id st =
     (case map_of (pipelines st) pipeline_id of
        None \<Rightarrow> (False, st)
      | Some pipeline \<Rightarrow>
          (let st1 = cancel_running_task pipeline_id st
           in (True, st1\<lparr>pipelines := AList.delete pipeline_id (pipelines st1)\<rparr>)))"

definition get_pipeline :: "string \<Rightarrow> state \<Rightarrow> Pipeline option" where
  "get_pipeline pipeline_id st = map_of (pipelines st) pipeline_id"

definition get_all_pipelines :: "state \<Rightarrow> Pipeline list" where
  "get_all_pipelines st = map snd (pipelines st)"

section \<open>The step executors\<close>

text \<open>
  A step executor works on the step object it is given and returns the exception it
  raises, if any, beside the step as it leaves it. The state is read only
  (\<open>self.pipelines[pipeline_id]\<close>).

  \<open>_execute_runway_step\<close>: \<open>if result and result.get("status") == "success"\<close> holds for a
  non-empty dictionary whose \<open>status\<close> is the string \<open>success\<close>. In the other branch the
  field \<open>error\<close> receives \<open>result.get("error", "Unknown error")\<close>, kept here by its
  \<open>str()\<close>, which is what the message of the exception holds.
\<close>

definition execute_runway_step ::
  "env \<Rightarrow> state \<Rightarrow> string \<Rightarrow> PipelineStep \<Rightarrow> exn option \<times> PipelineStep"
where
  "execute_runway_step e st pipeline_id step =
     (case map_of (pipelines st) pipeline_id of
        None \<Rightarrow> (Some (KeyError (py_repr e pipeline_id)), step)
      | Some pipeline \<Rightarrow>
          (case runway_process_video e (videoUrl pipeline) (prompt pipeline) pipeline_id of
             Inl x \<Rightarrow> (Some x, step)
           | Inr result \<Rightarrow>
               (let truthy = (case result of None \<Rightarrow> False | Some d \<Rightarrow> d \<noteq> [])
                in if truthy \<and> map_of (the result) ''status'' = Some (PyStr ''success'')
                   then (None, step\<lparr>step_output := result\<rparr>)
                   else
                     let err =
                           (if truthy
                            then (case map_of (the result) ''error'' of
                                    None \<Rightarrow> ''Unknown error''
                                  | Some v \<Rightarrow> py_str e v)
                            else ''No result'')
                     in (Some (ServiceException (''Runway service failed: '' @ err)),
                         step\<lparr>step_status := StepFAILED, error := Some err\<rparr>))))"

definition execute_ffmpeg_step_placeholder ::
  "string \<Rightarrow> PipelineStep \<Rightarrow> exn option \<times> PipelineStep"
where
  "execute_ffmpeg_step_placeholder pipeline_id step =
     (None, step\<lparr>step_status := StepSKIPPED,
                 error := Some ''FFmpeg service is currently disabled''\<rparr>)"

definition execute_whisper_step_placeholder ::
  "string \<Rightarrow> PipelineStep \<Rightarrow> exn option \<times> PipelineStep"
where
  "execute_whisper_step_placeholder pipeline_id step =
     (None, step\<lparr>step_status := StepSKIPPED,
                 error := Some ''Whisper service is currently disabled''\<rparr>)"

definition execute_gpt4_step_placeholder ::
  "string \<Rightarrow> PipelineStep \<Rightarrow> exn option \<times> PipelineStep"
where
  "execute_gpt4_step_placeholder pipeline_id step =
     (None, step\<lparr>step_status := StepSKIPPED,
                 error := Some ''GPT4 service is currently disabled''\<rparr>)"

definition execute_custom_step ::
  "env \<Rightarrow> string \<Rightarrow> PipelineStep \<Rightarrow> exn option \<times> PipelineStep"
where
  "execute_custom_step e pipeline_id step =
     (case asyncio_sleep e pipeline_id (stepId step) of
        Some x \<Rightarrow> (Some x, step)
      | None \<Rightarrow>
          (None,
           step\<lparr>step_output :=
                   Some [(''custom_result'', PyStr ''Custom processing result...''),
                         (''step_data'', PyDict (step_input step)),
                         (''status'', PyStr ''success'')]\<rparr>))"

section \<open>PipelineManager._execute_step\<close>

text \<open>
  The \<open>try\<close> block dispatches on the step type. \<open>StepType\<close> has the five members below,
  so the final \<open>else\<close> of the source (status \<open>SKIPPED\<close>, progress 100) has no value to
  run on.
\<close>

definition dispatch_step ::
  "env \<Rightarrow> state \<Rightarrow> string \<Rightarrow> PipelineStep \<Rightarrow> exn option \<times> PipelineStep"
where
  "dispatch_step e st pipeline_id step =
     (case stepType step of
        RUNWAY_VIDEO \<Rightarrow> execute_runway_step e st pipeline_id step
      | FFMPEG_PROCESS \<Rightarrow> execute_ffmpeg_step_placeholder pipeline_id step
      | WHISPER_TRANSCRIBE \<Rightarrow> execute_whisper_step_placeholder pipeline_id step
      | GPT4_ANALYSIS \<Rightarrow> execute_gpt4_step_placeholder pipeline_id step
      | CUSTOM_PROCESS \<Rightarrow> execute_custom_step e pipeline_id step)"

text \<open>
  The \<open>except Exception\<close> clause: an exception that is an \<open>Exception\<close> marks the step
  failed with the exception's \<open>str()\<close> and is replaced by a \<open>ServiceException\<close>; a
  \<open>CancelledError\<close> passes untouched.
\<close>

definition step_except :: "exn option \<times> PipelineStep \<Rightarrow> exn option \<times> PipelineStep" where
  "step_except r =
     (case r of
        (None, step) \<Rightarrow> (None, step)
      | (Some x, step) \<Rightarrow>
          if is_Exception x
          then (Some (ServiceException (''Step '' @ stepId step @ '' failed: '' @ exn_str x)),
                step\<lparr>step_status := StepFAILED, error := Some (exn_str x), progress := 0\<rparr>)
          else (Some x, step))"

text \<open>The \<open>finally\<close> clause, with the clock reading \<open>t\<close>.\<close>

definition step_finally :: "nat \<Rightarrow> PipelineStep \<Rightarrow> PipelineStep" where
  "step_finally t step =
     (let step1 = step\<lparr>step_completedAt := Some t\<rparr>
      in if step_status step1 = StepPROCESSING
         then step1\<lparr>step_status := StepCOMPLETED, progress := 100\<rparr>
         else step1)"

text \<open>
  \<open>_execute_step\<close> takes the clock and returns it advanced by its two readings.
\<close>

definition execute_step ::
  "env \<Rightarrow> state \<Rightarrow> string \<Rightarrow> PipelineStep \<Rightarrow> nat \<Rightarrow> exn option \<times> PipelineStep \<times> nat"
where
  "execute_step e st pipeline_id step clk =
     (let step1 = step\<lparr>step_status := StepPROCESSING, startedAt := Some clk,
                        progress := 10\<rparr>;
          (r, step2) = step_except (dispatch_step e st pipeline_id step1)
      in (r, step_finally (Suc clk) step2, Suc (Suc clk)))"

section \<open>PipelineManager._execute_pipeline\<close>

text \<open>
  The loop \<open>for step in pipeline.steps\<close>, over the indices that remain. The pipeline
  object and the clock are threaded through; the step objects are elements of
  \<open>pipeline.steps\<close>, so a step is written back at its index. The result carries the
  exception that left the loop, if any.
\<close>

fun run_steps ::
  "env \<Rightarrow> state \<Rightarrow> string \<Rightarrow> nat list \<Rightarrow> Pipeline \<times> nat \<Rightarrow> exn option \<times> Pipeline \<times> nat"
where
  "run_steps e st pipeline_id [] (pipeline, clk) = (None, pipeline, clk)"
| "run_steps e st pipeline_id (i # rest) (pipeline, clk) =
     (if status pipeline = CANCELLED then (None, pipeline, clk)
      else
        (case execute_step e st pipeline_id (steps pipeline ! i) clk of
           (r, step, clk1) \<Rightarrow>
             (let pipeline1 = pipeline\<lparr>steps := (steps pipeline)[i := step]\<rparr>
              in case r of
                   Some x \<Rightarrow> (Some x, pipeline1, clk1)
                 | None \<Rightarrow>
                     if step_status step = StepFAILED
                     then (None, pipeline1\<lparr>status := FAILED\<rparr>, clk1)
                     else if step_status step = StepCOMPLETED
                     then run_steps e st pipeline_id rest
                            (pipeline1\<lparr>completedSteps := completedSteps pipeline1 + 1\<rparr>,
                             clk1)
                     else run_steps e st pipeline_id rest (pipeline1, clk1))))"

text \<open>
  What follows the loop inside the \<open>try\<close>: the completion transition and the update
  timestamp.
\<close>

definition complete_pipeline :: "Pipeline \<times> nat \<Rightarrow> Pipeline \<times> nat" where
  "complete_pipeline pc =
     (case pc of (pipeline, clk) \<Rightarrow>
        (let (pipeline1, clk1) =
               (if status pipeline \<noteq> FAILED
                then (pipeline\<lparr>status := COMPLETED, completedAt := Some clk\<rparr>, Suc clk)
                else (pipeline, clk))
         in (pipeline1\<lparr>updatedAt := Some clk1\<rparr>, Suc clk1)))"

text \<open>
  \<open>_execute_pipeline\<close>, run as one task from its first statement to its last, with the
  awaits answered by the collaborators. What other tasks do to the manager while this
  one is suspended in an await is not followed here, but for the \<open>CancelledError\<close> an
  await can end with; the pipeline stays in the dictionary, so the object the loop
  works on is written back under its id at the end. The lookup of the first line is
  outside the \<open>try\<close>; the \<open>finally\<close> clause removes the registration of the id.
\<close>

definition execute_pipeline :: "env \<Rightarrow> string \<Rightarrow> state \<Rightarrow> exn option \<times> state" where
  "execute_pipeline e pipeline_id st =
     (case map_of (pipelines st) pipeline_id of
        None \<Rightarrow> (Some (KeyError (py_repr e pipeline_id)), st)
      | Some pipeline \<Rightarrow>
          (case run_steps e st pipeline_id [0..<length (steps pipeline)]
                  (pipeline, clock st) of
             (r, pipeline1, clk1) \<Rightarrow>
               (let (r2, pipeline2, clk2) =
                      (case r of
                         None \<Rightarrow>
                           (case complete_pipeline (pipeline1, clk1) of
                              (p, c) \<Rightarrow> (None, p, c))
                       | Some x \<Rightarrow>
                           if is_Exception x
                           then (Some (PipelineException
                                         (''Pipeline '' @ pipeline_id @ '' failed: ''
                                            @ exn_str x)),
                                 pipeline1\<lparr>status := FAILED, updatedAt := Some clk1\<rparr>,
                                 Suc clk1)
                           else (Some x, pipeline1, clk1))
                in (r2,
                    st\<lparr>pipelines := AList.update pipeline_id pipeline2 (pipelines st),
                        running_pipelines :=
                          AList.delete pipeline_id (running_pipelines st),
                        clock := clk2\<rparr>))))"

section \<open>utils/validators.py\<close>

text \<open>
  A Python string is a list of characters, one \<open>char\<close> for each code point below 256.
  \<open>py_isspace\<close> is \<open>str.isspace\<close> on these: the code points 9 to 13, 28 to 32, 133 and
  160. \<open>py_strip\<close> is \<open>str.strip()\<close>.
\<close>

definition py_isspace :: "char \<Rightarrow> bool" where
  "py_isspace c =
     (let n = (of_char c :: nat)
      in (9 \<le> n \<and> n \<le> 13) \<or> (28 \<le> n \<and> n \<le> 32) \<or> n = 133 \<or> n = 160)"

definition py_strip :: "string \<Rightarrow> string" where
  "py_strip s = rev (dropWhile py_isspace (rev (dropWhile py_isspace s)))"

definition validate_uuid :: "env \<Rightarrow> string \<Rightarrow> string \<Rightarrow> exn + bool" where
  "validate_uuid e uuid_string field_name =
     (if uuid_parses e uuid_string then Inr True
      else Inl (ValidationException
                  (''Invalid '' @ field_name @ '' format: '' @ uuid_string)))"

definition validate_video_url :: "string \<Rightarrow> exn + bool" where
  "validate_video_url url =
     (if url = [] then Inl (ValidationException ''Video URL cannot be empty'')
      else if \<not> (take 7 url = ''http://'' \<or> take 8 url = ''https://'')
      then Inl (ValidationException ''Video URL must be a valid HTTP/HTTPS URL'')
      else Inr True)"

definition validate_prompt :: "string \<Rightarrow> exn + bool" where
  "validate_prompt prompt_text =
     (if prompt_text = [] \<or> py_strip prompt_text = []
      then Inl (ValidationException ''Prompt cannot be empty'')
      else if length prompt_text > 1000
      then Inl (ValidationException ''Prompt too long (max 1000 characters)'')
      else Inr True)"

definition allowed_keys :: "string list" where
  "allowed_keys =
     [''enableRunwayVideo'', ''enableFfmpeg'', ''enableWhisper'', ''enableGpt4'',
      ''customSteps'']"

definition validate_pipeline_config :: "pydict \<Rightarrow> exn + bool" where
  "validate_pipeline_config config =
     (case filter (\<lambda>key. \<not> List.member allowed_keys key) (map fst config) of
        [] \<Rightarrow> Inr True
      | key # _ \<Rightarrow> Inl (ValidationException (''Invalid pipeline config key: '' @ key)))"

section \<open>main.py: transform_video\<close>

record VideoRequest =
  req_videoId :: string
  req_videoUrl :: string
  req_prompt :: string
  pipelineConfig :: "pydict option"

record VideoResponse =
  resp_videoId :: string
  resp_pipelineId :: string
  resp_status :: PipelineStatus
  message :: string
  resp_totalSteps :: int
  resp_completedSteps :: int
  resp_createdAt :: nat
  resp_updatedAt :: "nat option"

text \<open>
  The body of the \<open>try\<close> of \<open>transform_video\<close>. It returns the response or the exception
  raised, the arguments of the calls of \<open>start_pipeline\<close> handed to the background
  tasks, and the state. \<open>if request.pipelineConfig\<close> holds for a dictionary that is
  present and not empty.
\<close>

definition transform_video_try ::
  "env \<Rightarrow> VideoRequest \<Rightarrow> state \<Rightarrow> (exn + VideoResponse) \<times> string list \<times> state"
where
  "transform_video_try e request st =
     (let config_given =
            (case pipelineConfig request of None \<Rightarrow> False | Some d \<Rightarrow> d \<noteq> [])
      in
      case validate_uuid e (req_videoId request) ''videoId'' of
        Inl x \<Rightarrow> (Inl x, [], st)
      | Inr _ \<Rightarrow>
      (case validate_video_url (req_videoUrl request) of
        Inl x \<Rightarrow> (Inl x, [], st)
      | Inr _ \<Rightarrow>
      (case validate_prompt (req_prompt request) of
        Inl x \<Rightarrow> (Inl x, [], st)
      | Inr _ \<Rightarrow>
      (case (if config_given then validate_pipeline_config (the (pipelineConfig request))
             else Inr True) of
        Inl x \<Rightarrow> (Inl x, [], st)
      | Inr _ \<Rightarrow>
      (case filter (\<lambda>p. videoId p = req_videoId request) (get_all_pipelines st) of
        existing_pipeline # _ \<Rightarrow>
          (Inr \<lparr>resp_videoId = req_videoId request,
                resp_pipelineId = pipelineId existing_pipeline,
                resp_status = status existing_pipeline,
                message = ''Pipeline already exists with status: ''
                            @ py_format_status e (status existing_pipeline),
                resp_totalSteps = totalSteps existing_pipeline,
                resp_completedSteps = completedSteps existing_pipeline,
                resp_createdAt = createdAt existing_pipeline,
                resp_updatedAt = updatedAt existing_pipeline\<rparr>,
           [], st)
      | [] \<Rightarrow>
      (case (if config_given
             then (case parse_PipelineConfig e (the (pipelineConfig request)) of
                     Inl x \<Rightarrow> Inl x
                   | Inr c \<Rightarrow> Inr (Some c))
             else Inr None) of
        Inl x \<Rightarrow> (Inl x, [], st)
      | Inr config \<Rightarrow>
      (case create_pipeline e (req_videoId request) (req_videoUrl request)
              (req_prompt request) config st of
        (Inl x, st1) \<Rightarrow> (Inl x, [], st1)
      | (Inr pipeline, st1) \<Rightarrow>
          (Inr \<lparr>resp_videoId = req_videoId request,
                resp_pipelineId = pipelineId pipeline,
                resp_status = status pipeline,
                message = ''Pipeline created and started'',
                resp_totalSteps = totalSteps pipeline,
                resp_completedSteps = completedSteps pipeline,
                resp_createdAt = createdAt pipeline,
                resp_updatedAt = None\<rparr>,
           [pipelineId pipeline], st1))))))))"

text \<open>The three \<open>except\<close> clauses of \<open>transform_video\<close>.\<close>

fun transform_video_except :: "exn \<Rightarrow> exn" where
  "transform_video_except (ValidationException m) = HTTPException 400 m"
| "transform_video_except (PipelineException m) = HTTPException 500 m"
| "transform_video_except CancelledError = CancelledError"
| "transform_video_except x = HTTPException 500 (''Internal server error: '' @ exn_str x)"

definition transform_video ::
  "env \<Rightarrow> VideoRequest \<Rightarrow> state \<Rightarrow> (exn + VideoResponse) \<times> string list \<times> state"
where
  "transform_video e request st =
     (case transform_video_try e request st of
        (Inl x, bg, st1) \<Rightarrow> (Inl (transform_video_except x), bg, st1)
      | (Inr response, bg, st1) \<Rightarrow> (Inr response, bg, st1))"

section \<open>Notions of the specification, and sample inputs\<close>

text \<open>
  The configuration \<open>create_pipeline\<close> works with (\<open>PipelineConfig()\<close> when none is given),
  and the number of its flags that are set, as the specification counts them.
\<close>

definition config_of :: "PipelineConfig option \<Rightarrow> PipelineConfig" where
  "config_of config = (case config of None \<Rightarrow> default_PipelineConfig | Some c \<Rightarrow> c)"

definition enabled_flags :: "PipelineConfig \<Rightarrow> int" where
  "enabled_flags c =
     (if enableRunwayVideo c then 1 else 0) + (if enableFfmpeg c then 1 else 0)
     + (if enableWhisper c then 1 else 0) + (if enableGpt4 c then 1 else 0)"

text \<open>
  Collaborators for the concrete runs below: the video service answers every call with
  \<open>r\<close> and the sleep of a custom step with \<open>sl\<close>; the n-th identifier is \<open>id-\<close> followed by
  n letters \<open>i\<close>; every URL is accepted.
\<close>

definition sample_env :: "(exn + pydict option) \<Rightarrow> exn option \<Rightarrow> env" where
  "sample_env r sl =
     \<lparr>runway_process_video = (\<lambda>url p pid. r),
      asyncio_sleep = (\<lambda>pid sid. sl),
      uuid4 = (\<lambda>n. ''id-'' @ replicate n CHR ''i''),
      http_url_error = (\<lambda>u. None),
      py_str_other = (\<lambda>v. ''?''),
      py_repr = (\<lambda>s. s),
      uuid_parses = (\<lambda>s. length s = 36),
      parse_PipelineConfig = (\<lambda>d. Inr default_PipelineConfig),
      py_format_status = (\<lambda>s. ''status'')\<rparr>"

definition ok_env :: env where
  "ok_env = sample_env (Inr (Some [(''video_url'', PyStr ''https://x/out.mp4''),
                                   (''status'', PyStr ''success'')])) None"

definition quota_env :: env where
  "quota_env = sample_env (Inr (Some [(''error'', PyStr ''quota exceeded''),
                                      (''status'', PyStr ''failed'')])) None"

definition cancelled_env :: env where
  "cancelled_env = sample_env (Inl CancelledError) (Some CancelledError)"

definition sample_config :: PipelineConfig where
  "sample_config =
     \<lparr>enableRunwayVideo = True, enableFfmpeg = True, enableWhisper = False,
      enableGpt4 = True, customSteps = [ [(''type'', PyStr ''resize'')] ]\<rparr>"

text \<open>
  States reached by the operations themselves: a pipeline created with the default
  configuration and started; the same after a run in which the video service
  succeeds; and after a run in which it reports that the quota is exceeded.
\<close>

definition started_state :: state where
  "started_state =
     snd (start_pipeline ''id-''
            (snd (create_pipeline ok_env ''v'' ''http://a/v.mp4'' ''p'' None init_state)))"

definition completed_state :: state where
  "completed_state = snd (execute_pipeline ok_env ''id-'' started_state)"

definition failed_state :: state where
  "failed_state = snd (execute_pipeline quota_env ''id-'' started_state)"

text \<open>
  The await of the step's executor ends with \<open>CancelledError\<close>: the call of the video
  service for a primary-transform step, the sleep for a custom step. The placeholder
  executors await nothing.
\<close>

definition await_cancelled :: "env \<Rightarrow> state \<Rightarrow> string \<Rightarrow> PipelineStep \<Rightarrow> bool" where
  "await_cancelled e st pid s =
     (case stepType s of
        RUNWAY_VIDEO \<Rightarrow>
          (case map_of (pipelines st) pid of
             None \<Rightarrow> False
           | Some p \<Rightarrow> runway_process_video e (videoUrl p) (prompt p) pid = Inl CancelledError)
      | CUSTOM_PROCESS \<Rightarrow> asyncio_sleep e pid (stepId s) = Some CancelledError
      | _ \<Rightarrow> False)"

text \<open>The pipeline after at most \<open>k\<close> turns of the loop of a run.\<close>

definition pipeline_after :: "env \<Rightarrow> state \<Rightarrow> string \<Rightarrow> nat \<Rightarrow> Pipeline \<Rightarrow> nat \<Rightarrow> Pipeline" where
  "pipeline_after e st pid k p clk =
     fst (snd (run_steps e st pid (take k [0..<length (steps p)]) (p, clk)))"

text \<open>The pipeline that \<open>started_state\<close> holds.\<close>

definition started_pipeline :: Pipeline where
  "started_pipeline =
     \<lparr>pipelineId = ''id-'', videoId = ''v'', videoUrl = ''http://a/v.mp4'',
      prompt = ''p'', status = PROCESSING,
      steps = [new_step ''id-i'' RUNWAY_VIDEO 0 []],
      createdAt = 0, updatedAt = Some 1, completedAt = None, totalSteps = 1,
      completedSteps = 0\<rparr>"

text \<open>
  A request whose identifier and URL pass their checks (with \<open>sample_env\<close> an
  identifier of 36 characters parses) and whose prompt is three spaces.
\<close>

definition blank_request :: VideoRequest where
  "blank_request =
     \<lparr>req_videoId = ''123e4567-e89b-12d3-a456-426614174000'',
      req_videoUrl = ''https://a/v.mp4'', req_prompt = ''   '', pipelineConfig = None\<rparr>"






section \<open>Building the step list (claim C3)\<close>

lemma length_custom_steps: "length (custom_steps e cs n ord) = length cs"
  by (induction cs arbitrary: n ord) auto

lemma stepType_custom_steps:
  "map stepType (custom_steps e cs n ord) = replicate (length cs) CUSTOM_PROCESS"
  by (induction cs arbitrary: n ord) (auto simp: new_step_def)

lemma input_custom_steps: "map step_input (custom_steps e cs n ord) = cs"
  by (induction cs arbitrary: n ord) (auto simp: new_step_def)

lemma order_custom_steps:
  "i < length cs \<Longrightarrow> order (custom_steps e cs n ord ! i) = ord + int i"
proof (induction cs arbitrary: n ord i)
  case Nil
  then show ?case by simp
next
  case (Cons c cs)
  then show ?case by (cases i) (auto simp: new_step_def)
qed

lemma status_custom_steps:
  "s \<in> set (custom_steps e cs n ord) \<Longrightarrow> step_status s = StepPENDING"
  by (induction cs arbitrary: n ord) (auto simp: new_step_def)

text \<open>
  \<open>_create_steps\<close> by itself does what the specification says of \<open>create\<close>: one step for
  each flag that is set and one for each custom entry, numbered from 0.
\<close>

lemma create_steps_length:
  "int (length (fst (create_steps e c n0))) = enabled_flags c + int (length (customSteps c))"
  by (simp add: create_steps_def flag_step_def enabled_flags_def length_custom_steps)

lemma create_steps_order:
  "i < length (fst (create_steps e c n0)) \<Longrightarrow> order (fst (create_steps e c n0) ! i) = int i"
  apply (simp add: create_steps_def flag_step_def length_custom_steps split: if_splits)
  apply (auto simp: nth_append nth_Cons' new_step_def order_custom_steps length_custom_steps
           split: if_splits)
  done

lemma create_steps_forced:
  "fst (create_steps e
         (c\<lparr>enableFfmpeg := False, enableWhisper := False, enableGpt4 := False\<rparr>) n0) =
     (if enableRunwayVideo c
      then new_step (uuid4 e n0) RUNWAY_VIDEO 0 [] # custom_steps e (customSteps c) (Suc n0) 1
      else custom_steps e (customSteps c) n0 0)"
  by (simp add: create_steps_def flag_step_def)

lemma create_pipeline_returns:
  "http_url_error e video_url = None \<Longrightarrow>
   create_pipeline e video_id video_url prompt_text config st =
     (let step_list = fst (create_steps e ((config_of config)\<lparr>enableFfmpeg := False,
                             enableWhisper := False, enableGpt4 := False\<rparr>)
                           (Suc (uuid_count st)));
          pipeline =
            \<lparr>pipelineId = uuid4 e (uuid_count st), videoId = video_id, videoUrl = video_url,
             prompt = prompt_text, status = PENDING, steps = step_list,
             createdAt = clock st, updatedAt = None, completedAt = None,
             totalSteps = int (length step_list), completedSteps = 0\<rparr>
      in (Inr pipeline,
          st\<lparr>uuid_count := snd (create_steps e ((config_of config)\<lparr>enableFfmpeg := False,
                             enableWhisper := False, enableGpt4 := False\<rparr>)
                           (Suc (uuid_count st))),
             clock := Suc (clock st),
             pipelines := AList.update (uuid4 e (uuid_count st)) pipeline (pipelines st)\<rparr>))"
  by (simp add: create_pipeline_def config_of_def Let_def split: prod.splits)

text \<open>
  Claim C3, as the code has it. \<open>create_pipeline\<close> switches \<open>enableFfmpeg\<close>,
  \<open>enableWhisper\<close> and \<open>enableGpt4\<close> off before it builds the steps, so of the four flags
  only \<open>enableRunwayVideo\<close> counts: for every configuration (and a video URL that the
  \<open>Pipeline\<close> constructor accepts) the call returns a pipeline whose \<open>totalSteps\<close> is 1 if
  \<open>enableRunwayVideo\<close> is set, else 0, plus the number of custom steps, and is the
  length of \<open>steps\<close>; the steps are the primary-transform step, if enabled, followed by
  one custom step for each entry of \<open>customSteps\<close>, with that entry as its input; and
  \<open>steps[i].order = i\<close> for every index.
\<close>

theorem create_pipeline_steps:
  assumes "http_url_error e video_url = None"
  shows "\<exists>p st'. create_pipeline e video_id video_url prompt_text config st = (Inr p, st') \<and>
           totalSteps p = (if enableRunwayVideo (config_of config) then 1 else 0)
                            + int (length (customSteps (config_of config))) \<and>
           totalSteps p = int (length (steps p)) \<and>
           map stepType (steps p) =
             (if enableRunwayVideo (config_of config) then [RUNWAY_VIDEO] else [])
             @ replicate (length (customSteps (config_of config))) CUSTOM_PROCESS \<and>
           map step_input
             (drop (if enableRunwayVideo (config_of config) then 1 else 0) (steps p))
             = customSteps (config_of config) \<and>
           (\<forall>i<length (steps p). order (steps p ! i) = int i)"
proof -
  let ?c = "(config_of config)\<lparr>enableFfmpeg := False, enableWhisper := False,
              enableGpt4 := False\<rparr>"
  let ?ss = "fst (create_steps e ?c (Suc (uuid_count st)))"
  have len: "int (length ?ss) = (if enableRunwayVideo (config_of config) then 1 else 0)
               + int (length (customSteps (config_of config)))"
    using create_steps_length [of e ?c] by (simp add: enabled_flags_def)
  have ty: "map stepType ?ss =
              (if enableRunwayVideo (config_of config) then [RUNWAY_VIDEO] else [])
              @ replicate (length (customSteps (config_of config))) CUSTOM_PROCESS"
    by (simp add: create_steps_forced stepType_custom_steps new_step_def)
  have inp: "map step_input
               (drop (if enableRunwayVideo (config_of config) then 1 else 0) ?ss)
               = customSteps (config_of config)"
    by (simp add: create_steps_forced input_custom_steps)
  have ord: "\<forall>i<length ?ss. order (?ss ! i) = int i"
    using create_steps_order by blast
  show ?thesis
    using len ty inp ord
    by (simp add: create_pipeline_returns [OF assms] Let_def)
qed

theorem create_pipeline_steps_witness:
  "http_url_error ok_env ''http://a/v.mp4'' = None \<and>
   (\<exists>p st'. create_pipeline ok_env ''v'' ''http://a/v.mp4'' ''p'' (Some sample_config) init_state
              = (Inr p, st') \<and>
            totalSteps p = 2 \<and>
            map stepType (steps p) = [RUNWAY_VIDEO, CUSTOM_PROCESS] \<and>
            map step_input (drop 1 (steps p)) = [ [(''type'', PyStr ''resize'')] ])"
proof
  show h: "http_url_error ok_env ''http://a/v.mp4'' = None"
    by (simp add: ok_env_def sample_env_def)
  from create_pipeline_steps [OF h, where video_id = "''v''" and prompt_text = "''p''"
         and config = "Some sample_config" and st = init_state]
  show "\<exists>p st'. create_pipeline ok_env ''v'' ''http://a/v.mp4'' ''p'' (Some sample_config) init_state
              = (Inr p, st') \<and>
            totalSteps p = 2 \<and>
            map stepType (steps p) = [RUNWAY_VIDEO, CUSTOM_PROCESS] \<and>
            map step_input (drop 1 (steps p)) = [ [(''type'', PyStr ''resize'')] ]"
    by (auto simp: sample_config_def config_of_def)
qed

text \<open>
  The claim as the specification words it fails: with three flags set and one custom
  step the count of the specification is 4, and the pipeline created has 2 steps.
\<close>

theorem create_total_steps_counterexample:
  "map_option totalSteps
     (get_pipeline ''id-''
        (snd (create_pipeline ok_env ''v'' ''http://a/v.mp4'' ''p'' (Some sample_config)
                init_state))) = Some 2 \<and>
   enabled_flags sample_config + int (length (customSteps sample_config)) = 4"
  by (simp add: create_pipeline_def create_steps_def flag_step_def ok_env_def sample_env_def
        sample_config_def enabled_flags_def new_step_def init_state_def get_pipeline_def
        Let_def)

section \<open>The flags that create_pipeline switches off (claim C9)\<close>

text \<open>
  Claim C9. \<open>create_pipeline\<close> builds the steps from the configuration with
  \<open>enableFfmpeg\<close>, \<open>enableWhisper\<close> and \<open>enableGpt4\<close> set to false, whatever they were:
  for every configuration the pipeline created holds the primary-transform step, when
  \<open>enableRunwayVideo\<close> is set, followed by the custom steps, and no media-process,
  transcribe or content-analyze step.
\<close>

theorem create_pipeline_forces_flags:
  assumes "http_url_error e video_url = None"
  shows "\<exists>p st'. create_pipeline e video_id video_url prompt_text config st = (Inr p, st') \<and>
           steps p =
             fst (create_steps e
                    ((config_of config)\<lparr>enableFfmpeg := False, enableWhisper := False,
                                         enableGpt4 := False\<rparr>)
                    (Suc (uuid_count st))) \<and>
           steps p =
             (if enableRunwayVideo (config_of config)
              then [new_step (uuid4 e (Suc (uuid_count st))) RUNWAY_VIDEO 0 []] else [])
             @ custom_steps e (customSteps (config_of config))
                 (if enableRunwayVideo (config_of config)
                  then Suc (Suc (uuid_count st)) else Suc (uuid_count st))
                 (if enableRunwayVideo (config_of config) then 1 else 0) \<and>
           list_all (\<lambda>s. stepType s = RUNWAY_VIDEO \<or> stepType s = CUSTOM_PROCESS) (steps p) \<and>
           \<not> list_ex (\<lambda>s. stepType s = FFMPEG_PROCESS \<or> stepType s = WHISPER_TRANSCRIBE
                           \<or> stepType s = GPT4_ANALYSIS) (steps p)"
proof -
  let ?c = "(config_of config)\<lparr>enableFfmpeg := False, enableWhisper := False,
              enableGpt4 := False\<rparr>"
  let ?ss = "fst (create_steps e ?c (Suc (uuid_count st)))"
  have ty: "map stepType ?ss =
              (if enableRunwayVideo (config_of config) then [RUNWAY_VIDEO] else [])
              @ replicate (length (customSteps (config_of config))) CUSTOM_PROCESS"
    by (simp add: create_steps_forced stepType_custom_steps new_step_def)
  have "\<forall>t \<in> set (map stepType ?ss). t = RUNWAY_VIDEO \<or> t = CUSTOM_PROCESS"
    unfolding ty by auto
  then have all: "\<forall>s \<in> set ?ss. stepType s = RUNWAY_VIDEO \<or> stepType s = CUSTOM_PROCESS"
    by simp
  then have a1: "list_all (\<lambda>s. stepType s = RUNWAY_VIDEO \<or> stepType s = CUSTOM_PROCESS) ?ss"
    by (simp add: list_all_iff)
  have a2: "\<not> list_ex (\<lambda>s. stepType s = FFMPEG_PROCESS \<or> stepType s = WHISPER_TRANSCRIBE
                           \<or> stepType s = GPT4_ANALYSIS) ?ss"
    using all by (auto simp: list_ex_iff)
  show ?thesis
    using a1 a2
    by (simp add: create_pipeline_returns [OF assms] Let_def create_steps_forced)
qed

theorem create_pipeline_forces_flags_witness:
  "http_url_error ok_env ''http://a/v.mp4'' = None \<and>
   (\<exists>p st'. create_pipeline ok_env ''v'' ''http://a/v.mp4'' ''p'' (Some sample_config) init_state
              = (Inr p, st') \<and>
            enableFfmpeg sample_config \<and> enableGpt4 sample_config \<and>
            map stepType (steps p) = [RUNWAY_VIDEO, CUSTOM_PROCESS])"
proof
  show h: "http_url_error ok_env ''http://a/v.mp4'' = None"
    by (simp add: ok_env_def sample_env_def)
  from create_pipeline_forces_flags [OF h, where video_id = "''v''" and prompt_text = "''p''"
         and config = "Some sample_config" and st = init_state]
  show "\<exists>p st'. create_pipeline ok_env ''v'' ''http://a/v.mp4'' ''p'' (Some sample_config) init_state
              = (Inr p, st') \<and>
            enableFfmpeg sample_config \<and> enableGpt4 sample_config \<and>
            map stepType (steps p) = [RUNWAY_VIDEO, CUSTOM_PROCESS]"
    by (auto simp: sample_config_def config_of_def new_step_def create_steps_def
          flag_step_def)
qed

section \<open>The sample states, evaluated\<close>

lemma started_state_eq:
  "started_state =
     \<lparr>pipelines =
        [(''id-'',
          \<lparr>pipelineId = ''id-'', videoId = ''v'', videoUrl = ''http://a/v.mp4'',
           prompt = ''p'', status = PROCESSING,
           steps = [\<lparr>stepId = ''id-i'', stepType = RUNWAY_VIDEO, step_status = StepPENDING,
                     order = 0, step_input = [], step_output = None, error = None,
                     startedAt = None, step_completedAt = None, progress = 0\<rparr>],
           createdAt = 0, updatedAt = Some 1, completedAt = None, totalSteps = 1,
           completedSteps = 0\<rparr>)],
      running_pipelines = [(''id-'', 0)], tasks = [''id-''], cancel_requests = [],
      clock = 2, uuid_count = 2\<rparr>"
  by (simp add: started_state_def start_pipeline_def create_pipeline_def create_steps_def
        flag_step_def ok_env_def sample_env_def default_PipelineConfig_def new_step_def
        init_state_def Let_def)

lemma completed_state_eq:
  "completed_state =
     \<lparr>pipelines =
        [(''id-'',
          \<lparr>pipelineId = ''id-'', videoId = ''v'', videoUrl = ''http://a/v.mp4'',
           prompt = ''p'', status = COMPLETED,
           steps = [\<lparr>stepId = ''id-i'', stepType = RUNWAY_VIDEO, step_status = StepCOMPLETED,
                     order = 0, step_input = [],
                     step_output = Some [(''video_url'', PyStr ''https://x/out.mp4''),
                                         (''status'', PyStr ''success'')],
                     error = None, startedAt = Some 2, step_completedAt = Some 3,
                     progress = 100\<rparr>],
           createdAt = 0, updatedAt = Some 5, completedAt = Some 4, totalSteps = 1,
           completedSteps = 1\<rparr>)],
      running_pipelines = [], tasks = [''id-''], cancel_requests = [],
      clock = 6, uuid_count = 2\<rparr>"
  by (simp add: completed_state_def started_state_eq execute_pipeline_def execute_step_def
        dispatch_step_def execute_runway_step_def step_except_def step_finally_def
        complete_pipeline_def ok_env_def sample_env_def Let_def)

lemma failed_state_eq:
  "failed_state =
     \<lparr>pipelines =
        [(''id-'',
          \<lparr>pipelineId = ''id-'', videoId = ''v'', videoUrl = ''http://a/v.mp4'',
           prompt = ''p'', status = FAILED,
           steps = [\<lparr>stepId = ''id-i'', stepType = RUNWAY_VIDEO, step_status = StepFAILED,
                     order = 0, step_input = [], step_output = None,
                     error = Some ''Runway service failed: quota exceeded'',
                     startedAt = Some 2, step_completedAt = Some 3, progress = 0\<rparr>],
           createdAt = 0, updatedAt = Some 4, completedAt = None, totalSteps = 1,
           completedSteps = 0\<rparr>)],
      running_pipelines = [], tasks = [''id-''], cancel_requests = [],
      clock = 5, uuid_count = 2\<rparr>"
  by (simp add: failed_state_def started_state_eq execute_pipeline_def execute_step_def
        dispatch_step_def execute_runway_step_def step_except_def step_finally_def
        py_str_def quota_env_def sample_env_def Let_def)

lemma started_state_pipeline:
  "map_of (pipelines started_state) ''id-'' = Some started_pipeline"
  by (simp add: started_state_eq started_pipeline_def new_step_def)

section \<open>Terminal statuses (claim C1)\<close>

text \<open>
  The claim as worded fails: \<open>cancel_pipeline\<close> writes \<open>CANCELLED\<close> whatever the status
  is, so a pipeline that is \<open>COMPLETED\<close> becomes \<open>CANCELLED\<close>.
\<close>

theorem cancel_completed_counterexample:
  "map_option status (get_pipeline ''id-'' completed_state) = Some COMPLETED \<and>
   map_option status (get_pipeline ''id-'' (snd (cancel_pipeline ''id-'' completed_state)))
     = Some CANCELLED"
  by (simp add: completed_state_eq get_pipeline_def cancel_pipeline_def
        cancel_running_task_def)

text \<open>
  The guard of the completion transition is \<open>status != FAILED\<close> alone: a run that meets
  the status \<open>CANCELLED\<close> leaves the loop at once and then writes \<open>COMPLETED\<close>.
\<close>

lemma run_steps_cancelled:
  "status p = CANCELLED \<Longrightarrow> run_steps e st pid idxs (p, clk) = (None, p, clk)"
  by (cases idxs) simp_all

lemma run_of_cancelled_pipeline:
  assumes "map_of (pipelines st) pid = Some p" and "status p = CANCELLED"
  shows "map_option status (get_pipeline pid (snd (execute_pipeline e pid st)))
           = Some COMPLETED"
  using assms
  by (simp add: execute_pipeline_def run_steps_cancelled complete_pipeline_def
        get_pipeline_def update_conv')

text \<open>A run never leaves the status \<open>FAILED\<close> once it holds.\<close>

lemma run_steps_failed:
  "status p = FAILED \<Longrightarrow> status (fst (snd (run_steps e st pid idxs (p, clk)))) = FAILED"
  by (induction idxs arbitrary: p clk) (auto simp: Let_def split: prod.splits option.splits)

text \<open>
  Claim C1, as the code has it. \<open>cancel_pipeline\<close> on a missing id returns false and
  changes nothing; on an existing pipeline it returns true and sets the status to
  \<open>CANCELLED\<close> whatever it was, so that it leaves a \<open>CANCELLED\<close> pipeline \<open>CANCELLED\<close> and
  overwrites \<open>COMPLETED\<close> and \<open>FAILED\<close>. The completion transition at the end of the
  supervisor's loop never overwrites \<open>FAILED\<close> with \<open>COMPLETED\<close>, and a whole run of the
  supervisor on a pipeline whose status is \<open>FAILED\<close> leaves it \<open>FAILED\<close>.
\<close>

theorem cancel_pipeline_effect:
  "(map_of (pipelines st) pid = None \<longrightarrow> cancel_pipeline pid st = (False, st)) \<and>
   (\<forall>p. map_of (pipelines st) pid = Some p \<longrightarrow>
      (\<exists>st'. cancel_pipeline pid st = (True, st') \<and>
         get_pipeline pid st' = Some (p\<lparr>status := CANCELLED, updatedAt := Some (clock st)\<rparr>))) \<and>
   (status p0 = FAILED \<longrightarrow> status (fst (complete_pipeline (p0, clk))) = FAILED) \<and>
   (\<forall>p. map_of (pipelines st) pid = Some p \<and> status p = FAILED \<longrightarrow>
      map_option status (get_pipeline pid (snd (execute_pipeline e pid st))) = Some FAILED)"
proof (intro conjI allI impI)
  assume "map_of (pipelines st) pid = None"
  then show "cancel_pipeline pid st = (False, st)" by (simp add: cancel_pipeline_def)
next
  assume "status p0 = FAILED"
  then show "status (fst (complete_pipeline (p0, clk))) = FAILED"
    by (simp add: complete_pipeline_def)
next
  fix p assume "map_of (pipelines st) pid = Some p"
  then show "\<exists>st'. cancel_pipeline pid st = (True, st') \<and>
         get_pipeline pid st' = Some (p\<lparr>status := CANCELLED, updatedAt := Some (clock st)\<rparr>)"
    by (simp add: cancel_pipeline_def cancel_running_task_def get_pipeline_def update_conv'
          split: option.splits)
next
  fix p assume a: "map_of (pipelines st) pid = Some p \<and> status p = FAILED"
  obtain r q c where run: "run_steps e st pid [0..<length (steps p)] (p, clock st) = (r, q, c)"
    by (cases "run_steps e st pid [0..<length (steps p)] (p, clock st)") auto
  have "status q = FAILED"
    using run_steps_failed [of p e st pid "[0..<length (steps p)]" "clock st"] a run by simp
  then show "map_option status (get_pipeline pid (snd (execute_pipeline e pid st))) = Some FAILED"
    using a run
    by (simp add: execute_pipeline_def get_pipeline_def update_conv' complete_pipeline_def
          Let_def split: option.splits)
qed

theorem cancel_pipeline_effect_witness:
  "map_of (pipelines completed_state) ''nope'' = None \<and>
   cancel_pipeline ''nope'' completed_state = (False, completed_state) \<and>
   map_option status (map_of (pipelines failed_state) ''id-'') = Some FAILED \<and>
   (\<exists>st'. cancel_pipeline ''id-'' failed_state = (True, st') \<and>
      map_option status (get_pipeline ''id-'' st') = Some CANCELLED) \<and>
   map_option status
     (get_pipeline ''id-'' (snd (execute_pipeline ok_env ''id-'' failed_state))) = Some FAILED"
proof -
  let ?p = "the (map_of (pipelines failed_state) ''id-'')"
  note missing = cancel_pipeline_effect [where st = completed_state and pid = "''nope''"
                   and e = ok_env and ?p0.0 = ?p and clk = 0]
  note present = cancel_pipeline_effect [where st = failed_state and pid = "''id-''"
                   and e = ok_env and ?p0.0 = ?p and clk = 0]
  have none: "map_of (pipelines completed_state) ''nope'' = None"
    by (simp add: completed_state_eq)
  have some: "map_of (pipelines failed_state) ''id-'' = Some ?p" and failed: "status ?p = FAILED"
    by (simp_all add: failed_state_eq)
  from missing none
  have 1: "cancel_pipeline ''nope'' completed_state = (False, completed_state)"
    by blast
  from present some obtain st' where
    "cancel_pipeline ''id-'' failed_state = (True, st')" and
    "get_pipeline ''id-'' st' = Some (?p\<lparr>status := CANCELLED,
                                            updatedAt := Some (clock failed_state)\<rparr>)"
    by blast
  then have 2: "\<exists>st'. cancel_pipeline ''id-'' failed_state = (True, st') \<and>
                  map_option status (get_pipeline ''id-'' st') = Some CANCELLED"
    by simp
  from present some failed
  have 3: "map_option status
             (get_pipeline ''id-'' (snd (execute_pipeline ok_env ''id-'' failed_state)))
           = Some FAILED"
    by blast
  have 0: "map_option status (map_of (pipelines failed_state) ''id-'') = Some FAILED"
    by (simp add: failed_state_eq)
  show ?thesis using none 0 1 2 3 by blast
qed

section \<open>start (claim C2)\<close>

text \<open>
  The claim as worded fails: \<open>start_pipeline\<close> does not look at the status, so on a
  pipeline that is \<open>COMPLETED\<close> it raises nothing and sets the status to \<open>PROCESSING\<close>.
\<close>

theorem start_completed_counterexample:
  "map_option status (get_pipeline ''id-'' completed_state) = Some COMPLETED \<and>
   fst (start_pipeline ''id-'' completed_state) = None \<and>
   map_option status (get_pipeline ''id-'' (snd (start_pipeline ''id-'' completed_state)))
     = Some PROCESSING"
  by (simp add: completed_state_eq get_pipeline_def start_pipeline_def)

text \<open>
  Claim C2, as the code has it. \<open>start_pipeline\<close> requires the pipeline to exist, and
  nothing of its status: on a missing id it changes nothing and raises
  \<open>PipelineException\<close> (\<open>Pipeline <id> not found\<close>); on an existing pipeline, whatever
  its status, it sets the status to \<open>PROCESSING\<close>, records the update timestamp,
  creates the execution task and registers it under the id, and leaves the other
  pipelines as they are.
\<close>

theorem start_pipeline_effect:
  "(map_of (pipelines st) pid = None \<longrightarrow>
      start_pipeline pid st =
        (Some (PipelineException (''Pipeline '' @ pid @ '' not found'')), st)) \<and>
   (\<forall>p. map_of (pipelines st) pid = Some p \<longrightarrow>
      (\<exists>st'. start_pipeline pid st = (None, st') \<and>
         get_pipeline pid st' = Some (p\<lparr>status := PROCESSING, updatedAt := Some (clock st)\<rparr>) \<and>
         tasks st' = tasks st @ [pid] \<and>
         map_of (running_pipelines st') pid = Some (length (tasks st)) \<and>
         (\<forall>q. q \<noteq> pid \<longrightarrow> get_pipeline q st' = get_pipeline q st)))"
proof (intro conjI allI impI)
  assume "map_of (pipelines st) pid = None"
  then show "start_pipeline pid st =
               (Some (PipelineException (''Pipeline '' @ pid @ '' not found'')), st)"
    by (simp add: start_pipeline_def)
next
  fix p assume p: "map_of (pipelines st) pid = Some p"
  let ?st' = "st\<lparr>pipelines :=
                    AList.update pid (p\<lparr>status := PROCESSING, updatedAt := Some (clock st)\<rparr>)
                      (pipelines st),
                  clock := Suc (clock st),
                  tasks := tasks st @ [pid],
                  running_pipelines :=
                    AList.update pid (length (tasks st)) (running_pipelines st)\<rparr>"
  have started: "start_pipeline pid st = (None, ?st')"
    using p by (simp add: start_pipeline_def)
  have stored: "get_pipeline pid ?st'
                  = Some (p\<lparr>status := PROCESSING, updatedAt := Some (clock st)\<rparr>)"
    by (simp add: get_pipeline_def update_conv')
  have task: "tasks ?st' = tasks st @ [pid] \<and>
              map_of (running_pipelines ?st') pid = Some (length (tasks st))"
    by (simp add: update_conv')
  have others: "\<forall>q. q \<noteq> pid \<longrightarrow> get_pipeline q ?st' = get_pipeline q st"
    by (simp add: get_pipeline_def update_conv')
  show "\<exists>st'. start_pipeline pid st = (None, st') \<and>
         get_pipeline pid st' = Some (p\<lparr>status := PROCESSING, updatedAt := Some (clock st)\<rparr>) \<and>
         tasks st' = tasks st @ [pid] \<and>
         map_of (running_pipelines st') pid = Some (length (tasks st)) \<and>
         (\<forall>q. q \<noteq> pid \<longrightarrow> get_pipeline q st' = get_pipeline q st)"
    using started stored task others by blast
qed

theorem start_pipeline_effect_witness:
  "map_of (pipelines completed_state) ''nope'' = None \<and>
   start_pipeline ''nope'' completed_state =
     (Some (PipelineException ''Pipeline nope not found''), completed_state) \<and>
   map_option status (map_of (pipelines completed_state) ''id-'') = Some COMPLETED \<and>
   (\<exists>st'. start_pipeline ''id-'' completed_state = (None, st') \<and>
      map_option status (get_pipeline ''id-'' st') = Some PROCESSING \<and>
      map_option updatedAt (get_pipeline ''id-'' st') = Some (Some 6) \<and>
      tasks st' = [''id-'', ''id-''])"
  using start_pipeline_effect [of completed_state "''nope''"]
    start_pipeline_effect [of completed_state "''id-''"]
  by (auto simp: completed_state_eq)

section \<open>One step (claim C10)\<close>

lemma execute_step_completedAt:
  "execute_step e st pid s clk = (r, s', clk') \<Longrightarrow> step_completedAt s' = Some (Suc clk)"
  by (auto simp: execute_step_def step_finally_def Let_def split: prod.splits if_splits)

lemma execute_step_clock:
  "execute_step e st pid s clk = (r, s', clk') \<Longrightarrow> clk' = Suc (Suc clk)"
  by (auto simp: execute_step_def Let_def split: prod.splits)

text \<open>
  An exception leaves \<open>_execute_step\<close> either as a \<open>ServiceException\<close>, with the step
  failed, or as the \<open>CancelledError\<close> it was.
\<close>

lemma execute_step_raises:
  "execute_step e st pid s clk = (Some x, s', clk') \<Longrightarrow>
     (is_Exception x \<and> step_status s' = StepFAILED) \<or> x = CancelledError"
  by (auto simp: execute_step_def step_except_def step_finally_def Let_def
        split: prod.splits if_splits option.splits elim: is_Exception.elims)

lemma execute_step_cancelled:
  assumes "await_cancelled e st pid s"
  shows "execute_step e st pid s clk =
           (Some CancelledError,
            s\<lparr>step_status := StepCOMPLETED, startedAt := Some clk, progress := 100,
              step_completedAt := Some (Suc clk)\<rparr>,
            Suc (Suc clk))"
  using assms
  by (auto simp: await_cancelled_def execute_step_def dispatch_step_def
        execute_runway_step_def execute_custom_step_def step_except_def step_finally_def
        Let_def split: StepType.splits option.splits)

lemma step_finally_promotes:
  assumes "dispatch_step e st pid
             (s\<lparr>step_status := StepPROCESSING, startedAt := Some clk, progress := 10\<rparr>)
           = (r, s1)"
    and "r = None \<or> r = Some CancelledError"
    and "step_status s1 = StepPROCESSING"
  shows "execute_step e st pid s clk =
           (r, s1\<lparr>step_completedAt := Some (Suc clk), step_status := StepCOMPLETED,
                  progress := 100\<rparr>, Suc (Suc clk))"
  using assms
  by (auto simp: execute_step_def step_except_def step_finally_def Let_def)

text \<open>
  Claim C10. The \<open>finally\<close> clause of \<open>_execute_step\<close> sets \<open>completedAt\<close> whatever
  happened, and when the dispatch ended without an \<open>Exception\<close> (it returned, or a
  \<open>CancelledError\<close> passed through) a step still \<open>PROCESSING\<close> becomes \<open>COMPLETED\<close> with
  progress 100. So when the task is cancelled while a step awaits its executor,
  \<open>_execute_step\<close> leaves with the \<open>CancelledError\<close> and the step \<open>COMPLETED\<close>, progress
  100, its output untouched; the loop, at whichever turn, leaves with the same
  \<open>CancelledError\<close> and the pipeline as it was but for that step; and for the first step
  of a pipeline \<open>_execute_pipeline\<close> leaves with the \<open>CancelledError\<close> and stores that
  pipeline: \<open>completedSteps\<close> is not incremented and the status is not touched.
\<close>

theorem cancelled_step_marked_completed:
  assumes "map_of (pipelines st) pid = Some p"
    and "status p \<noteq> CANCELLED"
    and "steps p = s # rest"
    and "await_cancelled e st pid s"
  shows "step_completedAt (fst (snd (execute_step e st pid s2 clk))) = Some (Suc clk) \<and>
         ((fst (dispatch_step e st pid
                  (s2\<lparr>step_status := StepPROCESSING, startedAt := Some clk,
                       progress := 10\<rparr>)) = None \<or>
           fst (dispatch_step e st pid
                  (s2\<lparr>step_status := StepPROCESSING, startedAt := Some clk,
                       progress := 10\<rparr>)) = Some CancelledError) \<and>
          step_status (snd (dispatch_step e st pid
                  (s2\<lparr>step_status := StepPROCESSING, startedAt := Some clk,
                       progress := 10\<rparr>))) = StepPROCESSING \<longrightarrow>
            step_status (fst (snd (execute_step e st pid s2 clk))) = StepCOMPLETED \<and>
            progress (fst (snd (execute_step e st pid s2 clk))) = 100) \<and>
         execute_step e st pid s clk =
           (Some CancelledError,
            s\<lparr>step_status := StepCOMPLETED, startedAt := Some clk, progress := 100,
              step_completedAt := Some (Suc clk)\<rparr>,
            Suc (Suc clk)) \<and>
         (status p2 \<noteq> CANCELLED \<and> i < length (steps p2) \<and>
          await_cancelled e st pid (steps p2 ! i) \<longrightarrow>
            run_steps e st pid (i # idxs) (p2, clk) =
              (Some CancelledError,
               p2\<lparr>steps := (steps p2)
                   [i := (steps p2 ! i)\<lparr>step_status := StepCOMPLETED, startedAt := Some clk,
                                         progress := 100,
                                         step_completedAt := Some (Suc clk)\<rparr>]\<rparr>,
               Suc (Suc clk))) \<and>
         (\<exists>st'. execute_pipeline e pid st = (Some CancelledError, st') \<and>
            get_pipeline pid st' =
              Some (p\<lparr>steps := s\<lparr>step_status := StepCOMPLETED,
                                   startedAt := Some (clock st), progress := 100,
                                   step_completedAt := Some (Suc (clock st))\<rparr> # rest\<rparr>))"
proof -
  have turn: "status p2 \<noteq> CANCELLED \<and> i < length (steps p2) \<and>
          await_cancelled e st pid (steps p2 ! i) \<longrightarrow>
            run_steps e st pid (i # idxs) (p2, clk) =
              (Some CancelledError,
               p2\<lparr>steps := (steps p2)
                   [i := (steps p2 ! i)\<lparr>step_status := StepCOMPLETED, startedAt := Some clk,
                                         progress := 100,
                                         step_completedAt := Some (Suc clk)\<rparr>]\<rparr>,
               Suc (Suc clk))"
    by (simp add: execute_step_cancelled)
  have a: "step_completedAt (fst (snd (execute_step e st pid s2 clk))) = Some (Suc clk)"
    by (cases "execute_step e st pid s2 clk") (auto dest: execute_step_completedAt)
  have b: "(fst (dispatch_step e st pid
                  (s2\<lparr>step_status := StepPROCESSING, startedAt := Some clk,
                       progress := 10\<rparr>)) = None \<or>
           fst (dispatch_step e st pid
                  (s2\<lparr>step_status := StepPROCESSING, startedAt := Some clk,
                       progress := 10\<rparr>)) = Some CancelledError) \<and>
          step_status (snd (dispatch_step e st pid
                  (s2\<lparr>step_status := StepPROCESSING, startedAt := Some clk,
                       progress := 10\<rparr>))) = StepPROCESSING \<longrightarrow>
            step_status (fst (snd (execute_step e st pid s2 clk))) = StepCOMPLETED \<and>
            progress (fst (snd (execute_step e st pid s2 clk))) = 100"
    using step_finally_promotes [where e = e and st = st and pid = pid and s = s2
            and clk = clk]
    by (cases "dispatch_step e st pid
                 (s2\<lparr>step_status := StepPROCESSING, startedAt := Some clk, progress := 10\<rparr>)")
       auto
  have upt: "[0..<length (steps p)] = 0 # [Suc 0..<length (steps p)]"
    using assms(3) by (subst upt_rec) simp
  have run: "run_steps e st pid [0..<length (steps p)] (p, clock st) =
               (Some CancelledError,
                p\<lparr>steps := s\<lparr>step_status := StepCOMPLETED, startedAt := Some (clock st),
                               progress := 100,
                               step_completedAt := Some (Suc (clock st))\<rparr> # rest\<rparr>,
                Suc (Suc (clock st)))"
    unfolding upt using assms(2,3)
    by (simp add: execute_step_cancelled [OF assms(4)])
  have c: "\<exists>st'. execute_pipeline e pid st = (Some CancelledError, st') \<and>
            get_pipeline pid st' =
              Some (p\<lparr>steps := s\<lparr>step_status := StepCOMPLETED,
                                   startedAt := Some (clock st), progress := 100,
                                   step_completedAt := Some (Suc (clock st))\<rparr> # rest\<rparr>)"
    using assms(1) run
    by (simp add: execute_pipeline_def get_pipeline_def update_conv')
  show ?thesis
    using a b c turn execute_step_cancelled [OF assms(4), of clk] by blast
qed

theorem cancelled_step_marked_completed_witness:
  "map_of (pipelines started_state) ''id-'' = Some started_pipeline \<and>
   status started_pipeline \<noteq> CANCELLED \<and>
   steps started_pipeline = [new_step ''id-i'' RUNWAY_VIDEO 0 []] \<and>
   await_cancelled cancelled_env started_state ''id-'' (new_step ''id-i'' RUNWAY_VIDEO 0 []) \<and>
   (\<exists>st'. execute_pipeline cancelled_env ''id-'' started_state = (Some CancelledError, st') \<and>
      map_option status (get_pipeline ''id-'' st') = Some PROCESSING \<and>
      map_option completedSteps (get_pipeline ''id-'' st') = Some 0 \<and>
      map_option (map step_status o steps) (get_pipeline ''id-'' st') = Some [StepCOMPLETED] \<and>
      map_option (map progress o steps) (get_pipeline ''id-'' st') = Some [100] \<and>
      map_option (map step_output o steps) (get_pipeline ''id-'' st') = Some [None])"
proof -
  have h: "map_of (pipelines started_state) ''id-'' = Some started_pipeline"
    "status started_pipeline \<noteq> CANCELLED"
    "steps started_pipeline = new_step ''id-i'' RUNWAY_VIDEO 0 [] # []"
    "await_cancelled cancelled_env started_state ''id-'' (new_step ''id-i'' RUNWAY_VIDEO 0 [])"
    by (simp_all add: started_state_pipeline started_pipeline_def await_cancelled_def
          new_step_def cancelled_env_def sample_env_def)
  from cancelled_step_marked_completed [OF h, where ?s2.0 = "new_step ''id-i'' RUNWAY_VIDEO 0 []"
         and clk = 0 and ?p2.0 = started_pipeline and i = 0 and idxs = "[]"]
  obtain st' where
    run: "execute_pipeline cancelled_env ''id-'' started_state = (Some CancelledError, st')" and
    got: "get_pipeline ''id-'' st' =
            Some (started_pipeline
                    \<lparr>steps := (new_step ''id-i'' RUNWAY_VIDEO 0 [])
                               \<lparr>step_status := StepCOMPLETED,
                                startedAt := Some (clock started_state), progress := 100,
                                step_completedAt := Some (Suc (clock started_state))\<rparr> # []\<rparr>)"
    by blast
  have "map_option status (get_pipeline ''id-'' st') = Some PROCESSING \<and>
      map_option completedSteps (get_pipeline ''id-'' st') = Some 0 \<and>
      map_option (map step_status o steps) (get_pipeline ''id-'' st') = Some [StepCOMPLETED] \<and>
      map_option (map progress o steps) (get_pipeline ''id-'' st') = Some [100] \<and>
      map_option (map step_output o steps) (get_pipeline ''id-'' st') = Some [None]"
    by (simp add: got started_pipeline_def new_step_def)
  with run h show ?thesis by auto
qed

section \<open>The loop over the steps (claim C6)\<close>

lemma run_steps_shape:
  "run_steps e st pid idxs (p, clk) = (r, q, c) \<Longrightarrow>
     length (steps q) = length (steps p) \<and> totalSteps q = totalSteps p \<and>
     completedSteps p \<le> completedSteps q \<and>
     completedSteps q \<le> completedSteps p + int (length idxs)"
proof (induction idxs arbitrary: p clk)
  case Nil
  then show ?case by simp
next
  case (Cons i idxs)
  show ?case
  proof (cases "status p = CANCELLED")
    case True
    with Cons.prems show ?thesis by simp
  next
    case False
    obtain r1 s1 c1 where ex: "execute_step e st pid (steps p ! i) clk = (r1, s1, c1)"
      by (cases "execute_step e st pid (steps p ! i) clk") auto
    let ?p1 = "p\<lparr>steps := (steps p)[i := s1]\<rparr>"
    show ?thesis
    proof (cases r1)
      case (Some x)
      with Cons.prems False ex show ?thesis by auto
    next
      case None
      show ?thesis
      proof (cases "step_status s1 = StepFAILED")
        case True
        with Cons.prems False ex None show ?thesis by auto
      next
        case nf: False
        show ?thesis
        proof (cases "step_status s1 = StepCOMPLETED")
          case True
          with Cons.prems False ex None nf
          have "run_steps e st pid idxs
                  (?p1\<lparr>completedSteps := completedSteps ?p1 + 1\<rparr>, c1) = (r, q, c)"
            by simp
          from Cons.IH [OF this] show ?thesis by simp
        next
          case nc: False
          with Cons.prems False ex None nf
          have "run_steps e st pid idxs (?p1, c1) = (r, q, c)" by simp
          from Cons.IH [OF this] show ?thesis by simp
        qed
      qed
    qed
  qed
qed

lemma run_steps_prefix_mono:
  "completedSteps (fst (snd (run_steps e st pid (take k idxs) (p, clk))))
     \<le> completedSteps (fst (snd (run_steps e st pid (take (Suc k) idxs) (p, clk))))"
proof (induction idxs arbitrary: p clk k)
  case Nil
  then show ?case by simp
next
  case (Cons i idxs)
  show ?case
  proof (cases k)
    case 0
    obtain r q c where run: "run_steps e st pid [i] (p, clk) = (r, q, c)"
      by (cases "run_steps e st pid [i] (p, clk)") auto
    from run_steps_shape [OF run] 0 run show ?thesis by simp
  next
    case (Suc k')
    show ?thesis
      using Cons.IH [of k'] Suc
      by (auto simp: Let_def split: prod.splits option.splits)
  qed
qed

lemma run_steps_other:
  "run_steps e st pid idxs (p, clk) = (r, q, c) \<Longrightarrow> i \<notin> set idxs \<Longrightarrow>
     steps q ! i = steps p ! i"
proof (induction idxs arbitrary: p clk)
  case Nil
  then show ?case by simp
next
  case (Cons j idxs)
  then have ne: "j \<noteq> i" and ni: "i \<notin> set idxs" by auto
  show ?case
  proof (cases "status p = CANCELLED")
    case True
    with Cons.prems show ?thesis by simp
  next
    case False
    obtain r1 s1 c1 where ex: "execute_step e st pid (steps p ! j) clk = (r1, s1, c1)"
      by (cases "execute_step e st pid (steps p ! j) clk") auto
    let ?p1 = "p\<lparr>steps := (steps p)[j := s1]\<rparr>"
    have keep: "steps ?p1 ! i = steps p ! i" using ne by simp
    show ?thesis
    proof (cases r1)
      case (Some x)
      with Cons.prems False ex ne show ?thesis by auto
    next
      case None
      show ?thesis
      proof (cases "step_status s1 = StepFAILED")
        case True
        with Cons.prems False ex None ne show ?thesis by auto
      next
        case nf: False
        show ?thesis
        proof (cases "step_status s1 = StepCOMPLETED")
          case True
          with Cons.prems False ex None nf
          have "run_steps e st pid idxs
                  (?p1\<lparr>completedSteps := completedSteps ?p1 + 1\<rparr>, c1) = (r, q, c)"
            by simp
          from Cons.IH [OF this ni] keep show ?thesis by simp
        next
          case nc: False
          with Cons.prems False ex None nf
          have "run_steps e st pid idxs (?p1, c1) = (r, q, c)" by simp
          from Cons.IH [OF this ni] keep show ?thesis by simp
        qed
      qed
    qed
  qed
qed

lemma run_steps_count:
  "run_steps e st pid idxs (p, clk) = (r, q, c) \<Longrightarrow> r \<noteq> Some CancelledError \<Longrightarrow>
   distinct idxs \<Longrightarrow>
   (\<forall>i\<in>set idxs. i < length (steps p) \<and> step_status (steps p ! i) \<noteq> StepCOMPLETED) \<Longrightarrow>
     completedSteps q =
       completedSteps p
       + int (length (filter (\<lambda>i. step_status (steps q ! i) = StepCOMPLETED) idxs))"
proof (induction idxs arbitrary: p clk)
  case Nil
  then show ?case by simp
next
  case (Cons j idxs)
  from Cons.prems have jlt: "j < length (steps p)" and jn: "j \<notin> set idxs"
    and dist: "distinct idxs"
    and rest: "\<forall>i\<in>set idxs. i < length (steps p) \<and> step_status (steps p ! i) \<noteq> StepCOMPLETED"
    by auto
  show ?case
  proof (cases "status p = CANCELLED")
    case True
    with Cons.prems have "q = p" by simp
    with Cons.prems(4) show ?thesis by (simp add: filter_empty_conv)
  next
    case False
    obtain r1 s1 c1 where ex: "execute_step e st pid (steps p ! j) clk = (r1, s1, c1)"
      by (cases "execute_step e st pid (steps p ! j) clk") auto
    let ?p1 = "p\<lparr>steps := (steps p)[j := s1]\<rparr>"
    have rest1: "\<forall>i\<in>set idxs. i < length (steps ?p1) \<and>
                   step_status (steps ?p1 ! i) \<noteq> StepCOMPLETED"
    proof
      fix i assume i: "i \<in> set idxs"
      with jn have "i \<noteq> j" by auto
      then have "steps ?p1 ! i = steps p ! i" by simp
      with rest i show "i < length (steps ?p1) \<and>
                   step_status (steps ?p1 ! i) \<noteq> StepCOMPLETED" by simp
    qed
    have none1: "filter (\<lambda>i. step_status (steps ?p1 ! i) = StepCOMPLETED) idxs = []"
      using rest1 by (simp add: filter_empty_conv)
    have at_j: "steps ?p1 ! j = s1" using jlt by simp
    show ?thesis
    proof (cases r1)
      case (Some x)
      with Cons.prems(1) False ex have q: "q = ?p1" and r: "r = Some x" by auto
      from execute_step_raises ex Some Cons.prems(2) r
      have "step_status s1 = StepFAILED" by blast
      with q none1 at_j show ?thesis by simp
    next
      case None
      show ?thesis
      proof (cases "step_status s1 = StepFAILED")
        case True
        with Cons.prems(1) False ex None have q: "q = ?p1\<lparr>status := FAILED\<rparr>" by auto
        with True none1 at_j show ?thesis by simp
      next
        case nf: False
        show ?thesis
        proof (cases "step_status s1 = StepCOMPLETED")
          case True
          let ?p2 = "?p1\<lparr>completedSteps := completedSteps ?p1 + 1\<rparr>"
          from Cons.prems(1) False ex None nf True
          have run: "run_steps e st pid idxs (?p2, c1) = (r, q, c)" by simp
          have "steps q ! j = s1"
            using run_steps_other [OF run jn] at_j by simp
          moreover have "completedSteps q = completedSteps ?p2
              + int (length (filter (\<lambda>i. step_status (steps q ! i) = StepCOMPLETED) idxs))"
            using Cons.IH [OF run Cons.prems(2) dist] rest1 by simp
          ultimately show ?thesis using True by simp
        next
          case nc: False
          from Cons.prems(1) False ex None nf nc
          have run: "run_steps e st pid idxs (?p1, c1) = (r, q, c)" by simp
          have "steps q ! j = s1"
            using run_steps_other [OF run jn] at_j by simp
          moreover have "completedSteps q = completedSteps ?p1
              + int (length (filter (\<lambda>i. step_status (steps q ! i) = StepCOMPLETED) idxs))"
            using Cons.IH [OF run Cons.prems(2) dist] rest1 by simp
          ultimately show ?thesis using nc by simp
        qed
      qed
    qed
  qed
qed

lemma count_by_index:
  "length (filter (\<lambda>i. P (xs ! i)) [0..<length xs]) = length (filter P xs)"
proof -
  have "filter P xs = filter P (map (\<lambda>i. xs ! i) [0..<length xs])"
    by (simp add: map_nth)
  also have "\<dots> = map (\<lambda>i. xs ! i) (filter (\<lambda>i. P (xs ! i)) [0..<length xs])"
    by (simp add: filter_map comp_def)
  finally show ?thesis by simp
qed

lemma execute_pipeline_result:
  assumes "map_of (pipelines st) pid = Some p"
    and "run_steps e st pid [0..<length (steps p)] (p, clock st) = (r, q1, c1)"
  shows "\<exists>q. get_pipeline pid (snd (execute_pipeline e pid st)) = Some q \<and>
           steps q = steps q1 \<and> completedSteps q = completedSteps q1 \<and>
           totalSteps q = totalSteps q1 \<and>
           (fst (execute_pipeline e pid st) = Some CancelledError
              \<longleftrightarrow> r = Some CancelledError)"
proof (cases r)
  case None
  with assms show ?thesis
    by (simp add: execute_pipeline_def get_pipeline_def update_conv' complete_pipeline_def
          Let_def)
next
  case (Some x)
  with assms show ?thesis
    by (cases x)
       (simp_all add: execute_pipeline_def get_pipeline_def update_conv' Let_def)
qed

text \<open>
  Claim C6, as the code has it. For a pipeline as \<open>create_pipeline\<close> leaves it
  (\<open>completedSteps\<close> 0, \<open>totalSteps\<close> the number of steps, no step \<open>COMPLETED\<close>), during a
  run of the supervisor \<open>completedSteps\<close> is never negative, never exceeds \<open>totalSteps\<close>
  and never decreases from one turn of the loop to the next; the run ends with the count
  of the last turn, and, unless a task cancellation ended it, \<open>completedSteps\<close> is then
  the number of steps that are \<open>COMPLETED\<close>. (A pipeline that is started and run again
  is outside: see the counterexample.)
\<close>

theorem completed_steps_bounded:
  assumes "map_of (pipelines st) pid = Some p"
    and "completedSteps p = 0"
    and "totalSteps p = int (length (steps p))"
    and "list_all (\<lambda>s. step_status s \<noteq> StepCOMPLETED) (steps p)"
  shows "0 \<le> completedSteps (pipeline_after e st pid k p (clock st)) \<and>
         completedSteps (pipeline_after e st pid k p (clock st))
           \<le> totalSteps (pipeline_after e st pid k p (clock st)) \<and>
         completedSteps (pipeline_after e st pid k p (clock st))
           \<le> completedSteps (pipeline_after e st pid (Suc k) p (clock st)) \<and>
         (\<exists>q. get_pipeline pid (snd (execute_pipeline e pid st)) = Some q \<and>
              completedSteps q =
                completedSteps (pipeline_after e st pid (length (steps p)) p (clock st)) \<and>
              0 \<le> completedSteps q \<and> completedSteps q \<le> totalSteps q \<and>
              (fst (execute_pipeline e pid st) \<noteq> Some CancelledError \<longrightarrow>
                 completedSteps q =
                   int (length (filter (\<lambda>s. step_status s = StepCOMPLETED) (steps q)))))"
proof -
  let ?n = "length (steps p)"
  obtain rk qk ck where runk:
    "run_steps e st pid (take k [0..<?n]) (p, clock st) = (rk, qk, ck)"
    by (cases "run_steps e st pid (take k [0..<?n]) (p, clock st)") auto
  have qk: "pipeline_after e st pid k p (clock st) = qk"
    by (simp add: pipeline_after_def runk)
  have lk: "int (length (take k [0..<?n])) \<le> int ?n" by simp
  have b1: "0 \<le> completedSteps qk \<and> completedSteps qk \<le> totalSteps qk"
    using run_steps_shape [OF runk] assms(2,3) lk by linarith
  have b2: "completedSteps (pipeline_after e st pid k p (clock st))
              \<le> completedSteps (pipeline_after e st pid (Suc k) p (clock st))"
    unfolding pipeline_after_def by (rule run_steps_prefix_mono)
  obtain r q1 c1 where run:
    "run_steps e st pid [0..<?n] (p, clock st) = (r, q1, c1)"
    by (cases "run_steps e st pid [0..<?n] (p, clock st)") auto
  have q1: "pipeline_after e st pid ?n p (clock st) = q1"
    by (simp add: pipeline_after_def run)
  have sh: "length (steps q1) = ?n \<and> totalSteps q1 = totalSteps p \<and>
            0 \<le> completedSteps q1 \<and> completedSteps q1 \<le> int ?n"
    using run_steps_shape [OF run] assms(2) by simp
  have fresh: "\<forall>i\<in>set [0..<?n]. i < length (steps p) \<and>
                 step_status (steps p ! i) \<noteq> StepCOMPLETED"
    using assms(4) by (simp add: list_all_length)
  have cnt: "r \<noteq> Some CancelledError \<Longrightarrow>
               completedSteps q1 =
                 int (length (filter (\<lambda>s. step_status s = StepCOMPLETED) (steps q1)))"
  proof -
    assume nc: "r \<noteq> Some CancelledError"
    have "completedSteps q1 =
            completedSteps p
            + int (length (filter (\<lambda>i. step_status (steps q1 ! i) = StepCOMPLETED) [0..<?n]))"
      using run_steps_count [OF run nc _ fresh] by simp
    also have "\<dots> = int (length (filter (\<lambda>s. step_status s = StepCOMPLETED) (steps q1)))"
      using count_by_index [of "\<lambda>s. step_status s = StepCOMPLETED" "steps q1"] sh assms(2)
      by simp
    finally show ?thesis .
  qed
  from execute_pipeline_result [OF assms(1) run]
  obtain q where q: "get_pipeline pid (snd (execute_pipeline e pid st)) = Some q"
    "steps q = steps q1" "completedSteps q = completedSteps q1" "totalSteps q = totalSteps q1"
    "fst (execute_pipeline e pid st) = Some CancelledError \<longleftrightarrow> r = Some CancelledError"
    by blast
  have fin: "\<exists>q. get_pipeline pid (snd (execute_pipeline e pid st)) = Some q \<and>
              completedSteps q =
                completedSteps (pipeline_after e st pid (length (steps p)) p (clock st)) \<and>
              0 \<le> completedSteps q \<and> completedSteps q \<le> totalSteps q \<and>
              (fst (execute_pipeline e pid st) \<noteq> Some CancelledError \<longrightarrow>
                 completedSteps q =
                   int (length (filter (\<lambda>s. step_status s = StepCOMPLETED) (steps q))))"
    using q sh cnt q1 assms(3) by auto
  show ?thesis using b1 b2 fin qk by simp
qed

theorem completed_steps_bounded_witness:
  "map_of (pipelines started_state) ''id-'' = Some started_pipeline \<and>
   completedSteps started_pipeline = 0 \<and>
   totalSteps started_pipeline = int (length (steps started_pipeline)) \<and>
   list_all (\<lambda>s. step_status s \<noteq> StepCOMPLETED) (steps started_pipeline) \<and>
   (\<exists>q. get_pipeline ''id-'' (snd (execute_pipeline ok_env ''id-'' started_state)) = Some q \<and>
        completedSteps q = 1 \<and> completedSteps q \<le> totalSteps q \<and>
        completedSteps q =
          int (length (filter (\<lambda>s. step_status s = StepCOMPLETED) (steps q))))"
proof -
  have h: "map_of (pipelines started_state) ''id-'' = Some started_pipeline"
    "completedSteps started_pipeline = 0"
    "totalSteps started_pipeline = int (length (steps started_pipeline))"
    "list_all (\<lambda>s. step_status s \<noteq> StepCOMPLETED) (steps started_pipeline)"
    by (simp_all add: started_state_pipeline started_pipeline_def new_step_def)
  have ev: "execute_pipeline ok_env ''id-'' started_state = (None, completed_state)"
    by (simp add: completed_state_eq started_state_eq execute_pipeline_def execute_step_def
        dispatch_step_def execute_runway_step_def step_except_def step_finally_def
        complete_pipeline_def ok_env_def sample_env_def Let_def)
  from completed_steps_bounded [OF h, of ok_env 1]
  show ?thesis
    using h by (auto simp: ev completed_state_eq get_pipeline_def)
qed

text \<open>
  The claim as worded fails: a pipeline that is started and run a second time counts
  its step a second time, and \<open>completedSteps\<close> is 2 with \<open>totalSteps\<close> 1.
\<close>

theorem restart_counterexample:
  "map_option completedSteps
     (get_pipeline ''id-''
        (snd (execute_pipeline ok_env ''id-'' (snd (start_pipeline ''id-'' completed_state)))))
     = Some 2 \<and>
   map_option totalSteps
     (get_pipeline ''id-''
        (snd (execute_pipeline ok_env ''id-'' (snd (start_pipeline ''id-'' completed_state)))))
     = Some 1"
  by (simp add: completed_state_eq get_pipeline_def start_pipeline_def execute_pipeline_def execute_step_def
        dispatch_step_def execute_runway_step_def step_except_def step_finally_def
        complete_pipeline_def ok_env_def sample_env_def Let_def)


section \<open>Steps of the capabilities that are switched off (claim C5)\<close>












section \<open>A run whose first step answers (claims C4 and C7)\<close>

lemma upt_steps_Cons:
  "steps p = s # rest \<Longrightarrow> [0..<length (steps p)] = 0 # [Suc 0..<length (steps p)]"
  by (subst upt_rec) simp

lemma runway_step_success:
  assumes "map_of (pipelines st) pid = Some p"
    and "stepType s = RUNWAY_VIDEO"
    and "runway_process_video e (videoUrl p) (prompt p) pid = Inr (Some result)"
    and "map_of result ''status'' = Some (PyStr ''success'')"
  shows "execute_step e st pid s clk =
           (None,
            s\<lparr>step_status := StepCOMPLETED, startedAt := Some clk, progress := 100,
              step_output := Some result, step_completedAt := Some (Suc clk)\<rparr>,
            Suc (Suc clk))"
proof -
  have "result \<noteq> []" using assms(4) by auto
  with assms show ?thesis
    by (simp add: execute_step_def dispatch_step_def execute_runway_step_def
          step_except_def step_finally_def Let_def)
qed

lemma runway_step_failure:
  assumes "map_of (pipelines st) pid = Some p"
    and "stepType s = RUNWAY_VIDEO"
    and "runway_process_video e (videoUrl p) (prompt p) pid = Inr (Some result)"
    and "map_of result ''status'' \<noteq> Some (PyStr ''success'')"
    and "map_of result ''error'' = Some (PyStr msg)"
  shows "execute_step e st pid s clk =
           (Some (ServiceException
                    (''Step '' @ stepId s @ '' failed: Runway service failed: '' @ msg)),
            s\<lparr>step_status := StepFAILED, startedAt := Some clk, progress := 0,
              error := Some (''Runway service failed: '' @ msg),
              step_completedAt := Some (Suc clk)\<rparr>,
            Suc (Suc clk))"
proof -
  have "result \<noteq> []" using assms(5) by auto
  with assms show ?thesis
    by (simp add: execute_step_def dispatch_step_def execute_runway_step_def
          step_except_def step_finally_def py_str_def Let_def)
qed

text \<open>
  Claim C7. A pipeline that is \<open>PROCESSING\<close> with a single primary-transform step and
  \<open>completedSteps\<close> 0, whose video service returns a dictionary with \<open>status\<close> \<open>success\<close>
  and \<open>video_url\<close> \<open>https://x/out.mp4\<close>: the run raises nothing and leaves the pipeline
  \<open>COMPLETED\<close> with \<open>completedSteps\<close> 1, and the step \<open>COMPLETED\<close> with progress 100 and
  the dictionary as its output, so that \<open>steps[0].output.video_url\<close> is that URL.
\<close>

theorem single_step_success:
  assumes "map_of (pipelines st) pid = Some p"
    and "status p = PROCESSING"
    and "steps p = [s]"
    and "stepType s = RUNWAY_VIDEO"
    and "completedSteps p = 0"
    and "runway_process_video e (videoUrl p) (prompt p) pid = Inr (Some result)"
    and "map_of result ''status'' = Some (PyStr ''success'')"
    and "map_of result ''video_url'' = Some (PyStr ''https://x/out.mp4'')"
  shows "\<exists>st' q s'. execute_pipeline e pid st = (None, st') \<and>
           get_pipeline pid st' = Some q \<and>
           status q = COMPLETED \<and> completedSteps q = 1 \<and>
           steps q = [s'] \<and> step_status s' = StepCOMPLETED \<and> progress s' = 100 \<and>
           (\<exists>out. step_output s' = Some out \<and>
                  map_of out ''video_url'' = Some (PyStr ''https://x/out.mp4''))"
proof -
  let ?s' = "s\<lparr>step_status := StepCOMPLETED, startedAt := Some (clock st), progress := 100,
                step_output := Some result, step_completedAt := Some (Suc (clock st))\<rparr>"
  have run: "run_steps e st pid [0..<length (steps p)] (p, clock st) =
               (None, p\<lparr>steps := [?s'], completedSteps := 1\<rparr>, Suc (Suc (clock st)))"
    using assms(2,3,5)
    by (simp add: upt_steps_Cons [OF assms(3)]
          runway_step_success [OF assms(1) assms(4) assms(6) assms(7)])
  show ?thesis
    using assms(1,2,8) run
    by (simp add: execute_pipeline_def get_pipeline_def update_conv' complete_pipeline_def)
qed

theorem single_step_success_witness:
  "map_of (pipelines started_state) ''id-'' = Some started_pipeline \<and>
   status started_pipeline = PROCESSING \<and>
   steps started_pipeline = [new_step ''id-i'' RUNWAY_VIDEO 0 []] \<and>
   completedSteps started_pipeline = 0 \<and>
   runway_process_video ok_env (videoUrl started_pipeline) (prompt started_pipeline) ''id-''
     = Inr (Some [(''video_url'', PyStr ''https://x/out.mp4''), (''status'', PyStr ''success'')]) \<and>
   (\<exists>st' q s'. execute_pipeline ok_env ''id-'' started_state = (None, st') \<and>
      get_pipeline ''id-'' st' = Some q \<and>
      status q = COMPLETED \<and> completedSteps q = 1 \<and>
      steps q = [s'] \<and> step_status s' = StepCOMPLETED \<and> progress s' = 100 \<and>
      (\<exists>out. step_output s' = Some out \<and>
             map_of out ''video_url'' = Some (PyStr ''https://x/out.mp4'')))"
proof -
  let ?result = "[(''video_url'', PyStr ''https://x/out.mp4''), (''status'', PyStr ''success'')]"
  have h: "map_of (pipelines started_state) ''id-'' = Some started_pipeline"
    "status started_pipeline = PROCESSING"
    "steps started_pipeline = [new_step ''id-i'' RUNWAY_VIDEO 0 []]"
    "stepType (new_step ''id-i'' RUNWAY_VIDEO 0 []) = RUNWAY_VIDEO"
    "completedSteps started_pipeline = 0"
    "runway_process_video ok_env (videoUrl started_pipeline) (prompt started_pipeline) ''id-''
       = Inr (Some ?result)"
    "map_of ?result ''status'' = Some (PyStr ''success'')"
    "map_of ?result ''video_url'' = Some (PyStr ''https://x/out.mp4'')"
    by (simp_all add: started_state_pipeline started_pipeline_def new_step_def ok_env_def
          sample_env_def)
  from single_step_success [OF h] h show ?thesis by simp
qed

text \<open>
  Claim C4 on the code. A pipeline that is not \<open>CANCELLED\<close>, whose first step is a
  primary-transform step and whose video service returns a dictionary with a \<open>status\<close>
  other than \<open>success\<close> and the \<open>error\<close> \<open>msg\<close>: the run ends with a \<open>PipelineException\<close>,
  the pipeline \<open>FAILED\<close>, \<open>completedSteps\<close> as it was, the steps after the first untouched,
  and the first step \<open>FAILED\<close> with progress 0. Its \<open>error\<close> is not \<open>msg\<close>:
  \<open>_execute_runway_step\<close> stores \<open>msg\<close> and raises, and the \<open>except\<close> clause of
  \<open>_execute_step\<close> overwrites the field with the text of that exception,
  \<open>Runway service failed: msg\<close>. The claim says the error is exactly \<open>quota exceeded\<close>.
\<close>

theorem runway_failure_recorded:
  assumes "map_of (pipelines st) pid = Some p"
    and "status p \<noteq> CANCELLED"
    and "steps p = s # rest"
    and "stepType s = RUNWAY_VIDEO"
    and "runway_process_video e (videoUrl p) (prompt p) pid = Inr (Some result)"
    and "map_of result ''status'' \<noteq> Some (PyStr ''success'')"
    and "map_of result ''error'' = Some (PyStr msg)"
  shows "\<exists>st' q s'. execute_pipeline e pid st =
             (Some (PipelineException
                      (''Pipeline '' @ pid @ '' failed: Step '' @ stepId s
                         @ '' failed: Runway service failed: '' @ msg)), st') \<and>
           get_pipeline pid st' = Some q \<and>
           status q = FAILED \<and> completedSteps q = completedSteps p \<and>
           steps q = s' # rest \<and> step_status s' = StepFAILED \<and> progress s' = 0 \<and>
           error s' = Some (''Runway service failed: '' @ msg) \<and>
           error s' \<noteq> Some msg"
proof -
  let ?s' = "s\<lparr>step_status := StepFAILED, startedAt := Some (clock st), progress := 0,
                error := Some (''Runway service failed: '' @ msg),
                step_completedAt := Some (Suc (clock st))\<rparr>"
  have run: "run_steps e st pid [0..<length (steps p)] (p, clock st) =
               (Some (ServiceException
                        (''Step '' @ stepId s @ '' failed: Runway service failed: '' @ msg)),
                p\<lparr>steps := ?s' # rest\<rparr>, Suc (Suc (clock st)))"
    unfolding upt_steps_Cons [OF assms(3)] using assms(2,3)
    by (simp add: runway_step_failure [OF assms(1) assms(4) assms(5) assms(6) assms(7)])
  show ?thesis
    using assms(1) run
    by (simp add: execute_pipeline_def get_pipeline_def update_conv')
qed

theorem runway_failure_recorded_witness:
  "map_of (pipelines started_state) ''id-'' = Some started_pipeline \<and>
   status started_pipeline \<noteq> CANCELLED \<and>
   steps started_pipeline = [new_step ''id-i'' RUNWAY_VIDEO 0 []] \<and>
   runway_process_video quota_env (videoUrl started_pipeline) (prompt started_pipeline) ''id-''
     = Inr (Some [(''error'', PyStr ''quota exceeded''), (''status'', PyStr ''failed'')]) \<and>
   (\<exists>st' q s'. fst (execute_pipeline quota_env ''id-'' started_state) =
        Some (PipelineException
          ''Pipeline id- failed: Step id-i failed: Runway service failed: quota exceeded'') \<and>
      get_pipeline ''id-'' (snd (execute_pipeline quota_env ''id-'' started_state)) = Some q \<and>
      status q = FAILED \<and> completedSteps q = 0 \<and>
      steps q = [s'] \<and> step_status s' = StepFAILED \<and>
      error s' = Some ''Runway service failed: quota exceeded'')"
proof -
  let ?result = "[(''error'', PyStr ''quota exceeded''), (''status'', PyStr ''failed'')]"
  have h: "map_of (pipelines started_state) ''id-'' = Some started_pipeline"
    "status started_pipeline \<noteq> CANCELLED"
    "steps started_pipeline = new_step ''id-i'' RUNWAY_VIDEO 0 [] # []"
    "stepType (new_step ''id-i'' RUNWAY_VIDEO 0 []) = RUNWAY_VIDEO"
    "runway_process_video quota_env (videoUrl started_pipeline) (prompt started_pipeline) ''id-''
       = Inr (Some ?result)"
    "map_of ?result ''status'' \<noteq> Some (PyStr ''success'')"
    "map_of ?result ''error'' = Some (PyStr ''quota exceeded'')"
    by (simp_all add: started_state_pipeline started_pipeline_def new_step_def quota_env_def
          sample_env_def)
  from runway_failure_recorded [OF h] h show ?thesis
    by (auto simp: started_pipeline_def new_step_def)
qed

section \<open>Validation before the manager (claim C8)\<close>

lemma py_strip_blank:
  assumes "list_all py_isspace s"
  shows "py_strip s = []"
  using assms by (auto simp: py_strip_def list_all_iff dest: set_dropWhileD)

lemma validate_uuid_cases:
  "validate_uuid e u f = Inr True \<or> (\<exists>m. validate_uuid e u f = Inl (ValidationException m))"
  by (simp add: validate_uuid_def)

lemma validate_video_url_cases:
  "validate_video_url u = Inr True \<or> (\<exists>m. validate_video_url u = Inl (ValidationException m))"
  by (simp add: validate_video_url_def)

lemma validate_prompt_rejects:
  assumes "prompt_text = [] \<or> list_all py_isspace prompt_text \<or> 1000 < length prompt_text"
  shows "validate_prompt prompt_text = Inl (ValidationException ''Prompt cannot be empty'') \<or>
         validate_prompt prompt_text =
           Inl (ValidationException ''Prompt too long (max 1000 characters)'')"
  using assms py_strip_blank [of prompt_text]
  by (auto simp: validate_prompt_def)

text \<open>
  Claim C8. For a request whose prompt is empty, consists of whitespace only or is
  longer than 1000 characters, \<open>validate_prompt\<close> raises a \<open>ValidationException\<close>; the
  body of \<open>transform_video\<close> ends with a \<open>ValidationException\<close> (of the prompt, or of the
  identifier or the URL, which are checked before it), which the handler turns into
  the HTTP error 400; no background task is added and the state of the manager is the
  one before the call: no pipeline is created or stored.
\<close>

theorem bad_prompt_rejected:
  assumes "req_prompt request = [] \<or> list_all py_isspace (req_prompt request)
             \<or> 1000 < length (req_prompt request)"
  shows "(\<exists>m. validate_prompt (req_prompt request) = Inl (ValidationException m)) \<and>
         (\<exists>m. transform_video_try e request st = (Inl (ValidationException m), [], st)) \<and>
         (\<exists>m. transform_video e request st = (Inl (HTTPException 400 m), [], st)) \<and>
         get_all_pipelines (snd (snd (transform_video e request st))) = get_all_pipelines st"
proof -
  from validate_prompt_rejects [OF assms]
  obtain m where vp: "validate_prompt (req_prompt request) = Inl (ValidationException m)"
    by blast
  have body: "\<exists>m. transform_video_try e request st = (Inl (ValidationException m), [], st)"
  proof -
    from validate_uuid_cases [of e "req_videoId request" "''videoId''"]
    show ?thesis
    proof
      assume u: "validate_uuid e (req_videoId request) ''videoId'' = Inr True"
      from validate_video_url_cases [of "req_videoUrl request"]
      show ?thesis
      proof
        assume "validate_video_url (req_videoUrl request) = Inr True"
        with u vp show ?thesis by (simp add: transform_video_try_def)
      next
        assume "\<exists>m. validate_video_url (req_videoUrl request) = Inl (ValidationException m)"
        with u show ?thesis by (auto simp: transform_video_try_def)
      qed
    next
      assume "\<exists>m. validate_uuid e (req_videoId request) ''videoId''
                    = Inl (ValidationException m)"
      then show ?thesis by (auto simp: transform_video_try_def)
    qed
  qed
  then obtain m' where
    b: "transform_video_try e request st = (Inl (ValidationException m'), [], st)"
    by blast
  then have tv: "transform_video e request st = (Inl (HTTPException 400 m'), [], st)"
    by (simp add: transform_video_def)
  show ?thesis using vp b tv by simp
qed

theorem bad_prompt_rejected_witness:
  "list_all py_isspace (req_prompt blank_request) \<and>
   validate_prompt (req_prompt blank_request)
     = Inl (ValidationException ''Prompt cannot be empty'') \<and>
   transform_video ok_env blank_request started_state
     = (Inl (HTTPException 400 ''Prompt cannot be empty''), [], started_state)"
proof -
  have h: "req_prompt blank_request = [] \<or> list_all py_isspace (req_prompt blank_request)
             \<or> 1000 < length (req_prompt blank_request)"
    by (simp add: blank_request_def py_isspace_def)
  have v: "validate_prompt (req_prompt blank_request)
             = Inl (ValidationException ''Prompt cannot be empty'')"
    by (simp add: blank_request_def validate_prompt_def py_strip_def py_isspace_def)
  from bad_prompt_rejected [OF h, of ok_env started_state]
  obtain m where "transform_video ok_env blank_request started_state
                    = (Inl (HTTPException 400 m), [], started_state)"
    by blast
  moreover have "fst (transform_video ok_env blank_request started_state)
                   = Inl (HTTPException 400 ''Prompt cannot be empty'')"
    by (simp add: transform_video_def transform_video_try_def validate_uuid_def
          validate_video_url_def validate_prompt_def py_strip_def py_isspace_def
          blank_request_def ok_env_def sample_env_def)
  ultimately show ?thesis
    using v by (simp add: blank_request_def py_isspace_def)
qed

end
